theory Spec2Isabelle
  imports Complex_Main "HOL-Library.Multiset" "HOL-Library.List_Lexorder" "HOL-Library.Char_ord"
begin

section \<open>Exceptions\<close>

text \<open>
  The Python exceptions that the modelled functions of \<^verbatim>\<open>visualization.py\<close> can raise.
  \<open>IndexError k n\<close> is numpy's "index k is out of bounds for axis 0 with size n",
  \<open>KeyError k\<close> is what pandas' \<^verbatim>\<open>get_group\<close> raises for a key \<open>k\<close> that names no group,
  \<open>ColumnKeyError l\<close> what a DataFrame raises for a label \<open>l\<close> that names no column,
  \<open>ListIndexError\<close> is Python's "list index out of range", \<open>NameError n\<close> is raised for
  a name \<open>n\<close> that is not bound, \<open>AttributeError\<close> for an attribute that an object does not
  have. \<open>FileNotFoundError\<close> is the subclass of OSError of that name, \<open>OSError\<close> stands
  for the other operating system errors.
\<close>

datatype exn =
    IndexError int nat
  | ListIndexError
  | KeyError int
  | ColumnKeyError string
  | TypeError
  | AttributeError
  | NameError string
  | FileNotFoundError
  | OSError

section \<open>The Mallet adapter\<close>

text \<open>
  A Mallet word-weights file is tab separated with the columns 0 (topic id), 1 (word) and
  2 (weight) and no header. The table below is what \<^verbatim>\<open>pd.read_table\<close> hands back: one
  triple per line of the file, in file order. The entries of the word column are Python
  objects: the word as a \<^verbatim>\<open>str\<close>, or the float \<^verbatim>\<open>nan\<close> where the file has one of the
  spellings that \<^verbatim>\<open>pd.read_table\<close> reads as a missing value (among them the words
  \<^verbatim>\<open>nan\<close>, \<^verbatim>\<open>NA\<close> and \<^verbatim>\<open>NULL\<close>), or a number where every entry of the column reads
  as one.
\<close>

datatype word_cell = Str string | NaN | Number real

type_synonym mallet_row = "int \<times> word_cell \<times> real"

definition col0 :: "mallet_row \<Rightarrow> int" where
  "col0 r = fst r"

definition col1 :: "mallet_row \<Rightarrow> word_cell" where
  "col1 r = fst (snd r)"

definition col2 :: "mallet_row \<Rightarrow> real" where
  "col2 r = snd (snd r)"

text \<open>
  \<^verbatim>\<open>word_scores.sort(columns=[0,2], axis=0, ascending=[True, False])\<close>. \<^verbatim>\<open>DataFrame.sort\<close>
  is a method of pandas before version 0.20, which is the pandas this module is written
  for (version 0.20 removed it, and the call raises AttributeError there). It sorts by
  several columns with a stable lexicographic sort, that is a stable sort on the last key
  (column 2, descending) followed by a stable sort on the first key (column 0, ascending).
  \<open>sort_key\<close> is a stable insertion sort.
\<close>

definition sort_0_asc_2_desc :: "mallet_row list \<Rightarrow> mallet_row list" where
  "sort_0_asc_2_desc tbl = sort_key col0 (sort_key (\<lambda>r. - col2 r) tbl)"

text \<open>
  \<^verbatim>\<open>groupby(0)\<close> keeps the sorted frame and groups its rows by column 0. \<^verbatim>\<open>get_group(k)\<close>
  gives the rows of the frame whose column 0 is \<open>k\<close>, in frame order, and raises
  \<^verbatim>\<open>KeyError(k)\<close> when there is none.
\<close>

datatype grouped = GroupBy0 (frame: "mallet_row list")

definition read_mallet_word_weights :: "mallet_row list \<Rightarrow> grouped" where
  "read_mallet_word_weights word_scores = GroupBy0 (sort_0_asc_2_desc word_scores)"

definition get_group :: "grouped \<Rightarrow> int \<Rightarrow> exn + mallet_row list" where
  "get_group g k =
     (let rs = filter (\<lambda>r. col0 r = k) (frame g)
      in if rs = [] then Inl (KeyError k) else Inr rs)"

text \<open>
  \<^verbatim>\<open>iloc[0:n]\<close> is a Python slice: the first \<open>n\<close> rows for \<open>n \<ge> 0\<close>, all but the last
  \<open>-n\<close> rows for \<open>n < 0\<close>.
\<close>

definition iloc_0_to :: "int \<Rightarrow> 'a list \<Rightarrow> 'a list" where
  "iloc_0_to n xs =
     (if 0 \<le> n then take (nat n) xs else take (nat (int (length xs) + n)) xs)"

text \<open>
  The loop of lines 409 to 413 over the list \<open>topic_words\<close>: it appends each word and one
  space to \<open>wordlewords\<close>. For an entry that is not a \<^verbatim>\<open>str\<close>, \<^verbatim>\<open>word + " "\<close> raises
  TypeError.
\<close>

fun append_words :: "string \<Rightarrow> word_cell list \<Rightarrow> exn + string" where
  "append_words wordlewords [] = Inr wordlewords"
| "append_words wordlewords (Str word # rest) = append_words (wordlewords @ (word @ '' '')) rest"
| "append_words wordlewords (NaN # rest) = Inl TypeError"
| "append_words wordlewords (Number x # rest) = Inl TypeError"

text \<open>
  \<open>topic_words\<close> is the list the source's loop runs over, the word column of the first
  rows of the topic's group; \<open>wordlewords\<close> starts empty.
\<close>

definition topic_words :: "grouped \<Rightarrow> int \<Rightarrow> int \<Rightarrow> exn + word_cell list" where
  "topic_words word_scores_grouped number_of_top_words topic_nr =
     (case get_group word_scores_grouped topic_nr of
        Inl e \<Rightarrow> Inl e
      | Inr topic_word_scores \<Rightarrow>
          Inr (map col1 (iloc_0_to number_of_top_words topic_word_scores)))"

definition get_wordlewords :: "grouped \<Rightarrow> int \<Rightarrow> int \<Rightarrow> exn + string" where
  "get_wordlewords word_scores_grouped number_of_top_words topic_nr =
     (case topic_words word_scores_grouped number_of_top_words topic_nr of
        Inl e \<Rightarrow> Inl e
      | Inr ws \<Rightarrow> append_words [] ws)"

text \<open>The order the source sorts the table into.\<close>

definition topic_asc_weight_desc :: "mallet_row \<Rightarrow> mallet_row \<Rightarrow> bool" where
  "topic_asc_weight_desc a b \<longleftrightarrow> col0 a < col0 b \<or> (col0 a = col0 b \<and> col2 b \<le> col2 a)"

definition mallet_example :: "mallet_row list" where
  "mallet_example = [(0, Str ''cat'', 0.9), (0, Str ''dog'', 0.4), (1, Str ''fish'', 0.2)]"

text \<open>
  The table that \<^verbatim>\<open>pd.read_table\<close> hands back for a file with the two lines
  (0, nan, 0.9) and (0, dog, 0.4): the word \<^verbatim>\<open>nan\<close> is read as a missing value.
\<close>

definition nan_example :: "mallet_row list" where
  "nan_example = [(0, NaN, 0.9), (0, Str ''dog'', 0.4)]"

section \<open>The document-topic matrix\<close>

text \<open>
  What \<^verbatim>\<open>create_doc_topic\<close> uses of a Gensim LDA model: \<^verbatim>\<open>model.num_topics\<close>,
  \<^verbatim>\<open>model.__getitem__(doc)\<close>, the sparse list of (topic id, probability) pairs of a
  document, and \<^verbatim>\<open>model.show_topic(i, topn)\<close>, the \<open>topn\<close> heaviest (word, probability)
  pairs of topic \<open>i\<close>, of which the source joins the first components. A topic id is the
  index of a topic of the model, one of \<open>0, \<dots>, num_topics - 1\<close>; it is a Python integer,
  and the model below follows numpy for every integer.
\<close>

record 'doc lda_model =
  num_topics :: nat
  getitem :: "'doc \<Rightarrow> (int \<times> real) list"
  show_topic :: "nat \<Rightarrow> nat \<Rightarrow> (string \<times> real) list"

text \<open>\<^verbatim>\<open>np.zeros((rows, cols))\<close>, as a list of rows.\<close>

definition np_zeros :: "nat \<Rightarrow> nat \<Rightarrow> real list list" where
  "np_zeros rows cols = replicate rows (replicate cols 0)"

text \<open>
  \<^verbatim>\<open>row[k] = v\<close> on a numpy row of size \<open>n\<close>: an index \<open>-n \<le> k < 0\<close> counts from the
  end, an index outside \<open>-n \<le> k < n\<close> raises IndexError.
\<close>

definition np_setitem :: "real list \<Rightarrow> int \<Rightarrow> real \<Rightarrow> exn + real list" where
  "np_setitem row k v =
     (let n = int (length row)
      in if k < - n \<or> n \<le> k then Inl (IndexError k (length row))
         else Inr (row[nat (if k < 0 then k + n else k) := v]))"

text \<open>The inner loop: \<^verbatim>\<open>for topic in topic_dist: doc_topic[i][topic[0]] = topic[1]\<close>.\<close>

fun store_topic_dist :: "real list \<Rightarrow> (int \<times> real) list \<Rightarrow> exn + real list" where
  "store_topic_dist row [] = Inr row"
| "store_topic_dist row (topic # topic_dist) =
     (case np_setitem row (fst topic) (snd topic) of
        Inl e \<Rightarrow> Inl e
      | Inr row' \<Rightarrow> store_topic_dist row' topic_dist)"

text \<open>
  The outer loop: \<^verbatim>\<open>for doc, i in zip(corpus, range(no_of_docs))\<close>. The row index \<open>i\<close>
  comes from \<^verbatim>\<open>range(no_of_docs)\<close>, so it is always a row of the matrix.
\<close>

fun fill_doc_topic ::
  "'doc lda_model \<Rightarrow> ('doc \<times> nat) list \<Rightarrow> real list list \<Rightarrow> exn + real list list" where
  "fill_doc_topic model [] doc_topic = Inr doc_topic"
| "fill_doc_topic model ((doc, i) # rest) doc_topic =
     (case store_topic_dist (doc_topic ! i) (getitem model doc) of
        Inl e \<Rightarrow> Inl e
      | Inr row \<Rightarrow> fill_doc_topic model rest (doc_topic[i := row]))"

text \<open>Lines 246 to 253: the filled matrix, documents as rows, before it is labelled.\<close>

definition doc_topic_matrix ::
  "'doc list \<Rightarrow> 'doc lda_model \<Rightarrow> string list \<Rightarrow> exn + real list list" where
  "doc_topic_matrix corpus model doc_labels =
     (let no_of_topics = num_topics model;
          no_of_docs = length doc_labels
      in fill_doc_topic model (zip corpus [0..<no_of_docs]) (np_zeros no_of_docs no_of_topics))"

text \<open>\<^verbatim>\<open>sep.join(xs)\<close>.\<close>

fun join :: "string \<Rightarrow> string list \<Rightarrow> string" where
  "join sep [] = []"
| "join sep [x] = x"
| "join sep (x # y # ys) = x @ sep @ join sep (y # ys)"

definition topic_labels_of :: "'doc lda_model \<Rightarrow> string list" where
  "topic_labels_of model =
     map (\<lambda>i. join '' '' (map fst (show_topic model i 3))) [0..<num_topics model]"

text \<open>
  A pandas DataFrame: the row labels (\<open>index\<close>), the column labels (\<open>columns\<close>) and the
  cells, row by row. pandas accepts repeated labels on both axes.
\<close>

record data_frame =
  index :: "string list"
  columns :: "string list"
  cells :: "real list list"

definition df_transpose :: "data_frame \<Rightarrow> data_frame" where
  "df_transpose df =
     \<lparr>index = columns df, columns = index df,
      cells = map (\<lambda>j. map (\<lambda>row. row ! j) (cells df)) [0..<length (columns df)]\<rparr>"

text \<open>
  \<^verbatim>\<open>pd.DataFrame(doc_topic, index = doc_labels, columns = topic_labels)\<close> checks that the
  labels fit the shape of the matrix; the matrix has \<open>len(doc_labels)\<close> rows and
  \<open>num_topics\<close> columns and there are \<open>num_topics\<close> topic labels, so the check passes.
\<close>

definition create_doc_topic ::
  "'doc list \<Rightarrow> 'doc lda_model \<Rightarrow> string list \<Rightarrow> exn + data_frame" where
  "create_doc_topic corpus model doc_labels =
     (case doc_topic_matrix corpus model doc_labels of
        Inl e \<Rightarrow> Inl e
      | Inr doc_topic \<Rightarrow>
          Inr (df_transpose
                 \<lparr>index = doc_labels, columns = topic_labels_of model, cells = doc_topic\<rparr>))"

text \<open>
  The scenario of the specification: the corpus is the list of topic assignments, the
  model hands each one back and names its two topics \<open>a b c\<close> and \<open>d e f\<close>.
\<close>

definition scenario_model :: "(int \<times> real) list lda_model" where
  "scenario_model =
     \<lparr>num_topics = 2,
      getitem = (\<lambda>doc. doc),
      show_topic = (\<lambda>i topn. take topn
         (if i = 0 then [(''a'', 0.5), (''b'', 0.3), (''c'', 0.2)]
          else [(''d'', 0.5), (''e'', 0.3), (''f'', 0.2)]))\<rparr>"

definition scenario_corpus :: "(int \<times> real) list list" where
  "scenario_corpus = [[(0, 0.7), (1, 0.3)], [(1, 1.0)]]"

definition scenario_doc_labels :: "string list" where
  "scenario_doc_labels = [''doc1'', ''doc2'']"

text \<open>
  Three more corpora for the scenario's model and its two document labels: one with a
  document too many, one with a document too few, one whose only document names a topic
  that the model does not have.
\<close>

definition three_doc_corpus :: "(int \<times> real) list list" where
  "three_doc_corpus = scenario_corpus @ [[(0, 1.0)]]"

definition one_doc_corpus :: "(int \<times> real) list list" where
  "one_doc_corpus = [[(0, 0.7), (1, 0.3)]]"

definition out_of_range_corpus :: "(int \<times> real) list list" where
  "out_of_range_corpus = [[(2, 1.0)]]"

section \<open>The bar chart of one document\<close>

text \<open>
  Python's \<^verbatim>\<open>xs[i]\<close> on a list of \<open>n\<close> elements: \<open>-n \<le> i < 0\<close> counts from the end,
  an index outside \<open>-n \<le> i < n\<close> raises IndexError.
\<close>

definition py_index :: "nat \<Rightarrow> int \<Rightarrow> nat" where
  "py_index n i = nat (if i < 0 then i + int n else i)"

definition py_list_get :: "'a list \<Rightarrow> int \<Rightarrow> exn + 'a" where
  "py_list_get xs i =
     (let n = int (length xs)
      in if i < - n \<or> n \<le> i then Inl ListIndexError
         else Inr (xs ! py_index (length xs) i))"

text \<open>
  A DataFrame is rectangular: one row of cells for each row label, one cell in each row
  for each column label.
\<close>

definition rectangular :: "data_frame \<Rightarrow> bool" where
  "rectangular df \<longleftrightarrow>
     length (cells df) = length (index df)
     \<and> list_all (\<lambda>row. length row = length (columns df)) (cells df)"

text \<open>
  \<^verbatim>\<open>df[label]\<close> selects by label, not by position: a label that one column carries
  gives that column as a Series (the row labels with the column's cells), a label that
  several columns carry gives a DataFrame of all of them, a label that no column carries
  raises KeyError.
\<close>

datatype selection = Series "(string \<times> real) list" | Frame data_frame

definition df_column :: "data_frame \<Rightarrow> nat \<Rightarrow> real list" where
  "df_column df j = map (\<lambda>row. row ! j) (cells df)"

definition df_getitem :: "data_frame \<Rightarrow> string \<Rightarrow> exn + selection" where
  "df_getitem df label =
     (case filter (\<lambda>j. columns df ! j = label) [0..<length (columns df)] of
        [] \<Rightarrow> Inl (ColumnKeyError label)
      | [j] \<Rightarrow> Inr (Series (zip (index df) (df_column df j)))
      | j # k # js \<Rightarrow>
          Inr (Frame \<lparr>index = index df,
                      columns = map (\<lambda>c. columns df ! c) (j # k # js),
                      cells = map (\<lambda>row. map (\<lambda>c. row ! c) (j # k # js)) (cells df)\<rparr>))"

text \<open>
  What \<^verbatim>\<open>plot_doc_topics\<close> hands to pyplot: the bars of \<^verbatim>\<open>plt.barh\<close> (positions and
  widths), the ticks of \<^verbatim>\<open>plt.yticks\<close> (positions and labels), the title and the two
  axis labels.
\<close>

record bar_chart =
  bar_positions :: "nat list"
  bar_widths :: "real list"
  ytick_positions :: "nat list"
  ytick_labels :: "string list"
  title :: string
  xlabel :: string
  ylabel :: string

text \<open>
  \<^verbatim>\<open>data[data != 0]\<close> keeps the entries of the Series that are not zero, and
  \<^verbatim>\<open>data.sort_values()\<close> sorts them by value, ascending; \<open>sort_key\<close> stands for it (the
  order pandas gives equal values is not fixed by the source, and nothing below depends
  on it). On the DataFrame that a repeated label selects, \<^verbatim>\<open>data[data != 0]\<close> is again a
  DataFrame, and \<^verbatim>\<open>sort_values()\<close> without its argument \<^verbatim>\<open>by\<close> raises TypeError.
\<close>

definition plot_doc_topics :: "data_frame \<Rightarrow> int \<Rightarrow> exn + bar_chart" where
  "plot_doc_topics doc_topic document_index =
     (case py_list_get (columns doc_topic) document_index of
        Inl e \<Rightarrow> Inl e
      | Inr label \<Rightarrow>
          (case df_getitem doc_topic label of
             Inl e \<Rightarrow> Inl e
           | Inr (Frame f) \<Rightarrow> Inl TypeError
           | Inr (Series data) \<Rightarrow>
               (let data1 = filter (\<lambda>lv. snd lv \<noteq> 0) data;
                    data2 = sort_key snd data1;
                    values = map snd data2;
                    labels = map fst data2
                in Inr \<lparr>bar_positions = [0..<length values], bar_widths = values,
                        ytick_positions = [0..<length values], ytick_labels = labels,
                        title = label, xlabel = ''Proportion'', ylabel = ''Topic''\<rparr>)))"

text \<open>
  Two frames: the one \<^verbatim>\<open>create_doc_topic\<close> returns for the scenario, and one with two
  documents of the same label, as \<^verbatim>\<open>create_doc_topic\<close> returns it for the document
  labels \<open>doc\<close>, \<open>doc\<close>.
\<close>

definition scenario_doc_topic :: data_frame where
  "scenario_doc_topic =
     \<lparr>index = [''a b c'', ''d e f''], columns = [''doc1'', ''doc2''],
      cells = [[0.7, 0], [0.3, 1]]\<rparr>"

definition same_label_doc_topic :: data_frame where
  "same_label_doc_topic =
     \<lparr>index = [''a b c'', ''d e f''], columns = [''doc'', ''doc''],
      cells = [[0.7, 0], [0.3, 1]]\<rparr>"

section \<open>The class Visualization\<close>

text \<open>
  A matplotlib figure, as far as \<^verbatim>\<open>make_heatmap\<close> sets it: the size it was created with
  (\<open>None\<close> for matplotlib's default), the grid drawn by \<^verbatim>\<open>pcolor\<close> (\<open>None\<close> when nothing
  was drawn), the ticks and their labels, whether the y axis was inverted and whether
  \<^verbatim>\<open>tight_layout\<close> was called. \<^verbatim>\<open>plt.figure(figsize=...)\<close> creates an empty figure.
  The calls of matplotlib are taken to succeed.
\<close>

record figure =
  figsize :: "(nat \<times> nat) option"
  pcolor :: "real list list option"
  yticks :: "real list"
  yticklabels :: "string list"
  xticks :: "real list"
  xticklabels :: "string list"
  yaxis_inverted :: bool
  tight :: bool

definition plt_figure :: "(nat \<times> nat) option \<Rightarrow> figure" where
  "plt_figure fs =
     \<lparr>figsize = fs, pcolor = None, yticks = [], yticklabels = [], xticks = [],
      xticklabels = [], yaxis_inverted = False, tight = False\<rparr>"

text \<open>
  The attributes of a Visualization object. \<^verbatim>\<open>__init__\<close> sets \<^verbatim>\<open>corpus\<close> and \<^verbatim>\<open>model\<close>,
  and either \<^verbatim>\<open>doc_labels\<close> (\<^verbatim>\<open>interactive == False\<close>) or \<^verbatim>\<open>dictionary\<close>
  (\<^verbatim>\<open>interactive == True\<close>); \<^verbatim>\<open>heatmap_vis\<close> and \<^verbatim>\<open>interactive_vis\<close> exist only once
  \<^verbatim>\<open>make_heatmap\<close> or \<^verbatim>\<open>make_interactive\<close> has assigned them. An attribute that was not
  assigned is \<open>None\<close> here, and reading it raises AttributeError.
\<close>

typedecl prepared_data

record ('doc, 'dict) visualization =
  self_corpus :: "'doc list"
  self_model :: "'doc lda_model"
  self_doc_labels :: "string list option"
  self_dictionary :: "'dict option"
  heatmap_vis :: "figure option"
  interactive_vis :: "prepared_data option"

definition Visualization ::
  "'doc lda_model \<Rightarrow> 'doc list \<Rightarrow> 'dict \<Rightarrow> string list \<Rightarrow> bool \<Rightarrow> ('doc, 'dict) visualization" where
  "Visualization lda_model corpus dictionary doc_labels interactive =
     \<lparr>self_corpus = corpus, self_model = lda_model,
      self_doc_labels = (if interactive = False then Some doc_labels else None),
      self_dictionary = (if interactive = False then None else Some dictionary),
      heatmap_vis = None, interactive_vis = None\<rparr>"

text \<open>
  \<^verbatim>\<open>make_heatmap\<close>. Lines 122 to 131 are the loop of \<^verbatim>\<open>create_doc_topic\<close> on the
  object's corpus, model and document labels. Then the branch of lines 141 to 154: with
  more than 20 documents or more than 20 topics the figure is created with size (20, 20)
  and the method ends; everything else, the drawing and the assignment to
  \<^verbatim>\<open>self.heatmap_vis\<close>, stands in the \<^verbatim>\<open>else\<close> branch. The result is the object after the
  call and the figure that the call created.
\<close>

definition make_heatmap ::
  "('doc, 'dict) visualization \<Rightarrow> exn + (('doc, 'dict) visualization \<times> figure)" where
  "make_heatmap self =
     (case self_doc_labels self of
        None \<Rightarrow> Inl AttributeError
      | Some doc_labels \<Rightarrow>
          (let no_of_topics = num_topics (self_model self);
               no_of_docs = length doc_labels
           in case doc_topic_matrix (self_corpus self) (self_model self) doc_labels of
                Inl e \<Rightarrow> Inl e
              | Inr doc_topic \<Rightarrow>
                  (let topic_labels = topic_labels_of (self_model self)
                   in if no_of_docs > 20 \<or> no_of_topics > 20
                      then Inr (self, plt_figure (Some (20, 20)))
                      else (let fig = (plt_figure None)
                                  \<lparr>pcolor := Some doc_topic,
                                   yticks := map (\<lambda>k. real k + 1.0) [0..<no_of_docs],
                                   yticklabels := doc_labels,
                                   xticks := map (\<lambda>k. real k + 0.5) [0..<no_of_topics],
                                   xticklabels := topic_labels,
                                   yaxis_inverted := True,
                                   tight := True\<rparr>
                            in Inr (self\<lparr>heatmap_vis := Some fig\<rparr>, fig)))))"

text \<open>
  The file system, as far as the save methods meet it: whether a path exists, and what
  \<^verbatim>\<open>os.makedirs\<close> and \<^verbatim>\<open>savefig\<close> do for a path, namely nothing but their work (\<open>None\<close>) or
  raise an exception. \<^verbatim>\<open>os.makedirs('')\<close>, for one, raises FileNotFoundError.
\<close>

record os_env =
  path_exists :: "string \<Rightarrow> bool"
  makedirs :: "string \<Rightarrow> exn option"
  savefig :: "string \<Rightarrow> nat \<Rightarrow> exn option"

text \<open>\<^verbatim>\<open>os.path.join(a, b)\<close> of \<^verbatim>\<open>posixpath\<close>.\<close>

definition os_path_join :: "string \<Rightarrow> string \<Rightarrow> string" where
  "os_path_join a b =
     (if b \<noteq> [] \<and> hd b = CHR ''/'' then b
      else if a = [] \<or> last a = CHR ''/'' then a @ b
      else a @ ''/'' @ b)"

text \<open>
  What a call of a save method does that its caller can see: the messages it logs with
  \<^verbatim>\<open>log.error\<close> (the module sets the level ERROR, so \<^verbatim>\<open>log.info\<close> and \<^verbatim>\<open>log.debug\<close> print
  nothing), the exception it raises (\<open>None\<close> when it returns), the files it writes.
\<close>

record call_result =
  errors_logged :: "string list"
  raised :: "exn option"
  files_written :: "string list"

text \<open>
  The two handlers of the save methods: AttributeError is logged and raised again,
  FileNotFoundError is passed over, any other exception goes to the caller.
\<close>

definition except_save :: "string \<Rightarrow> exn \<Rightarrow> call_result" where
  "except_save message e =
     (if e = AttributeError
      then \<lparr>errors_logged = [message], raised = Some AttributeError, files_written = []\<rparr>
      else if e = FileNotFoundError
      then \<lparr>errors_logged = [], raised = None, files_written = []\<rparr>
      else \<lparr>errors_logged = [], raised = Some e, files_written = []\<rparr>)"

text \<open>\<^verbatim>\<open>if not os.path.exists(path): os.makedirs(path)\<close>.\<close>

definition ensure_dir :: "os_env \<Rightarrow> string \<Rightarrow> exn option" where
  "ensure_dir env path = (if \<not> path_exists env path then makedirs env path else None)"

definition save_heatmap ::
  "os_env \<Rightarrow> ('doc, 'dict) visualization \<Rightarrow> string \<Rightarrow> string \<Rightarrow> string \<Rightarrow> nat \<Rightarrow> call_result" where
  "save_heatmap env self path filename ext dpi =
     (case ensure_dir env path of
        Some e \<Rightarrow> except_save ''Run make_heatmap() before save_heatmp()'' e
      | None \<Rightarrow>
          (case heatmap_vis self of
             None \<Rightarrow> except_save ''Run make_heatmap() before save_heatmp()'' AttributeError
           | Some fig \<Rightarrow>
               (case savefig env (os_path_join path (filename @ ''.'' @ ext)) dpi of
                  Some e \<Rightarrow> except_save ''Run make_heatmap() before save_heatmp()'' e
                | None \<Rightarrow>
                    \<lparr>errors_logged = [], raised = None,
                     files_written = [os_path_join path (filename @ ''.'' @ ext)]\<rparr>)))"

text \<open>
  The module does not import pyLDAvis (line 31 is a comment), so the name is not bound:
  \<^verbatim>\<open>make_interactive\<close> raises NameError when it evaluates \<^verbatim>\<open>pyLDAvis.gensim.prepare\<close>, and
  \<^verbatim>\<open>save_interactive\<close> raises it when it evaluates \<^verbatim>\<open>pyLDAvis.save_html\<close>, after the
  directory is there and before it reads \<^verbatim>\<open>self.interactive_vis\<close>.
\<close>

definition make_interactive ::
  "('doc, 'dict) visualization \<Rightarrow> exn + ('doc, 'dict) visualization" where
  "make_interactive self = Inl (NameError ''pyLDAvis'')"

definition save_interactive ::
  "os_env \<Rightarrow> ('doc, 'dict) visualization \<Rightarrow> string \<Rightarrow> string \<Rightarrow> call_result" where
  "save_interactive env self path filename =
     (case ensure_dir env path of
        Some e \<Rightarrow> except_save ''Running make_interactive() before save_interactive() ...'' e
      | None \<Rightarrow>
          except_save ''Running make_interactive() before save_interactive() ...''
            (NameError ''pyLDAvis''))"

text \<open>
  Objects and file systems to run the methods on: the scenario's object, on which no
  make method was called; an object with 21 documents; a file system in which the
  directory \<open>out\<close> exists and every call succeeds; one in which \<open>out\<close> exists but has no
  subdirectory \<open>sub\<close>, so that \<^verbatim>\<open>savefig\<close> raises FileNotFoundError for a file in it, and
  an object that has a figure to save; one in which no directory exists and
  \<^verbatim>\<open>os.makedirs\<close> raises FileNotFoundError for the empty path.
\<close>

definition scenario_visualization :: "((int \<times> real) list, unit) visualization" where
  "scenario_visualization =
     Visualization scenario_model scenario_corpus () scenario_doc_labels False"

definition large_visualization :: "((int \<times> real) list, unit) visualization" where
  "large_visualization =
     Visualization scenario_model (replicate 21 [(0, 1.0)]) () (replicate 21 ''doc'') False"

definition ready_env :: os_env where
  "ready_env =
     \<lparr>path_exists = (\<lambda>p. p = ''out''), makedirs = (\<lambda>p. None), savefig = (\<lambda>p dpi. None)\<rparr>"

definition lost_file_env :: os_env where
  "lost_file_env =
     \<lparr>path_exists = (\<lambda>p. p = ''out''), makedirs = (\<lambda>p. None),
      savefig = (\<lambda>p dpi. if p = ''out/sub/heatmap.png'' then Some FileNotFoundError else None)\<rparr>"

definition drawn_visualization :: "((int \<times> real) list, unit) visualization" where
  "drawn_visualization = scenario_visualization\<lparr>heatmap_vis := Some (plt_figure None)\<rparr>"

definition no_dir_env :: os_env where
  "no_dir_env =
     \<lparr>path_exists = (\<lambda>p. False),
      makedirs = (\<lambda>p. if p = [] then Some FileNotFoundError else None),
      savefig = (\<lambda>p dpi. None)\<rparr>"

section \<open>The heat map of a document-topic frame\<close>

text \<open>
  \<^verbatim>\<open>sort_index()\<close> sorts the rows of a frame by their labels; Python compares strings
  character by character. \<open>sort_key\<close> stands for it, as for \<^verbatim>\<open>sort_values\<close> above.
\<close>

definition sort_index :: "data_frame \<Rightarrow> data_frame" where
  "sort_index df =
     (let rows = sort_key fst (zip (index df) (cells df))
      in df\<lparr>index := map fst rows, cells := map snd rows\<rparr>)"

text \<open>
  \<^verbatim>\<open>doc_topic_heatmap\<close> draws with pyplot's current figure, which is the argument
  \<open>current\<close>: \<^verbatim>\<open>plt.figure(figsize=(20,20))\<close> replaces it by a new one, which happens with
  more than 20 documents or topics, and \<^verbatim>\<open>plt.pcolor\<close> creates a figure of the default
  size if there is none. Here the drawing follows the \<^verbatim>\<open>if\<close>, for every size. The
  result is the figure after the call.
\<close>

definition doc_topic_heatmap :: "figure option \<Rightarrow> data_frame \<Rightarrow> figure" where
  "doc_topic_heatmap current data_frame =
     (let data_frame = sort_index (df_transpose data_frame);
          doc_labels = index data_frame;
          topic_labels = columns data_frame;
          fig = (if length doc_labels > 20 \<or> length topic_labels > 20
                 then plt_figure (Some (20, 20))
                 else (case current of None \<Rightarrow> plt_figure None | Some f \<Rightarrow> f))
      in fig\<lparr>pcolor := Some (cells data_frame),
              yticks := map (\<lambda>k. real k + 1.0) [0..<length doc_labels],
              yticklabels := doc_labels,
              xticks := map (\<lambda>k. real k + 0.5) [0..<length topic_labels],
              xticklabels := topic_labels,
              yaxis_inverted := \<not> yaxis_inverted fig,
              tight := True\<rparr>)"

section \<open>Properties of the Mallet adapter\<close>

lemma append_words_strings:
  "append_words acc0 (map Str ws) = Inr (acc0 @ concat (map (\<lambda>w. w @ '' '') ws))"
  by (induction ws arbitrary: acc0) simp_all

lemma sort_0_asc_2_desc_mset: "mset (sort_0_asc_2_desc tbl) = mset tbl"
  by (simp add: sort_0_asc_2_desc_def)

lemma filter_topic_sorted:
  "filter (\<lambda>r. col0 r = k) (sort_0_asc_2_desc tbl) =
     sort_key (\<lambda>r. - col2 r) (filter (\<lambda>r. col0 r = k) tbl)"
  by (simp add: sort_0_asc_2_desc_def sort_key_stable filter_sort)

lemma sorted_wrt_desc_weight:
  "sorted_wrt (\<lambda>a b. col2 b \<le> col2 a) (sort_key (\<lambda>r. - col2 r) xs)"
proof -
  have "sorted (map (\<lambda>r. - col2 r) (sort_key (\<lambda>r. - col2 r) xs))"
    by (rule sorted_sort_key)
  then show ?thesis
    by (simp add: sorted_map)
qed

lemma sorted_wrt_topic_then_weight:
  assumes "sorted (map col0 xs)"
    and "\<And>k. sorted_wrt (\<lambda>a b. col2 b \<le> col2 a) (filter (\<lambda>r. col0 r = k) xs)"
  shows "sorted_wrt topic_asc_weight_desc xs"
  using assms
proof (induction xs)
  case Nil
  then show ?case by simp
next
  case (Cons x xs)
  have tail: "sorted_wrt topic_asc_weight_desc xs"
  proof (rule Cons.IH)
    show "sorted (map col0 xs)" using Cons.prems(1) by simp
  next
    fix k
    have "sorted_wrt (\<lambda>a b. col2 b \<le> col2 a) (filter (\<lambda>r. col0 r = k) (x # xs))"
      by (rule Cons.prems(2))
    then show "sorted_wrt (\<lambda>a b. col2 b \<le> col2 a) (filter (\<lambda>r. col0 r = k) xs)"
      by (simp split: if_splits)
  qed
  have head: "topic_asc_weight_desc x y" if "y \<in> set xs" for y
  proof -
    have le: "col0 x \<le> col0 y" using Cons.prems(1) that by auto
    show ?thesis
    proof (cases "col0 x = col0 y")
      case True
      have "sorted_wrt (\<lambda>a b. col2 b \<le> col2 a) (filter (\<lambda>r. col0 r = col0 x) (x # xs))"
        by (rule Cons.prems(2))
      with True that have "col2 y \<le> col2 x" by (cases y) auto
      with True show ?thesis by (simp add: topic_asc_weight_desc_def)
    next
      case False
      with le show ?thesis by (simp add: topic_asc_weight_desc_def)
    qed
  qed
  from tail head show ?case by simp
qed

lemma sort_0_asc_2_desc_sorted: "sorted_wrt topic_asc_weight_desc (sort_0_asc_2_desc tbl)"
proof (rule sorted_wrt_topic_then_weight)
  show "sorted (map col0 (sort_0_asc_2_desc tbl))"
    by (simp add: sort_0_asc_2_desc_def)
next
  fix k
  show "sorted_wrt (\<lambda>a b. col2 b \<le> col2 a) (filter (\<lambda>r. col0 r = k) (sort_0_asc_2_desc tbl))"
    by (simp add: filter_topic_sorted sorted_wrt_desc_weight)
qed

lemma get_group_read:
  "k \<in> col0 ` set tbl \<Longrightarrow>
   get_group (read_mallet_word_weights tbl) k =
     Inr (sort_key (\<lambda>r. - col2 r) (filter (\<lambda>r. col0 r = k) tbl))"
proof -
  assume "k \<in> col0 ` set tbl"
  then have "filter (\<lambda>r. col0 r = k) tbl \<noteq> []"
    by (auto simp: filter_empty_conv)
  then have "sort_key (\<lambda>r. - col2 r) (filter (\<lambda>r. col0 r = k) tbl) \<noteq> []"
    by (metis length_sort length_0_conv)
  then show ?thesis
    by (simp add: get_group_def read_mallet_word_weights_def filter_topic_sorted)
qed

text \<open>
  Claim C4, as the code has it. \<^verbatim>\<open>read_mallet_word_weights\<close> sorts the rows by topic id
  ascending and, within a topic, by weight descending, and keeps every row; the groups are
  taken from the sorted frame. For a topic that occurs in the table and a number
  \<open>k \<ge> 0\<close>, the rows \<open>rs\<close> of the topic's group are the topic's rows of the table in
  descending order of weight, and the loop of \<^verbatim>\<open>get_wordlewords\<close> runs over the word
  column of the first \<open>k\<close> rows of \<open>rs\<close>, that is over \<open>k\<close> entries or all of them if the
  topic has fewer. When these entries are strings \<open>ws\<close>, \<^verbatim>\<open>get_wordlewords\<close> returns the
  words \<open>ws\<close>, each followed by one space.
\<close>

theorem mallet_sorted_then_top_k:
  assumes "topic_nr \<in> col0 ` set tbl" and "0 \<le> k"
  shows "sorted_wrt topic_asc_weight_desc (frame (read_mallet_word_weights tbl))
       \<and> mset (frame (read_mallet_word_weights tbl)) = mset tbl
       \<and> (\<exists>rs. mset rs = mset (filter (\<lambda>r. col0 r = topic_nr) tbl)
             \<and> sorted_wrt (\<lambda>a b. col2 b \<le> col2 a) rs
             \<and> get_group (read_mallet_word_weights tbl) topic_nr = Inr rs
             \<and> topic_words (read_mallet_word_weights tbl) k topic_nr =
                 Inr (map col1 (take (nat k) rs))
             \<and> length (take (nat k) rs) =
                 min (nat k) (length (filter (\<lambda>r. col0 r = topic_nr) tbl))
             \<and> (\<forall>ws. map col1 (take (nat k) rs) = map Str ws \<longrightarrow>
                   get_wordlewords (read_mallet_word_weights tbl) k topic_nr =
                     Inr (concat (map (\<lambda>w. w @ '' '') ws))))"
proof -
  let ?rs = "sort_key (\<lambda>r. - col2 r) (filter (\<lambda>r. col0 r = topic_nr) tbl)"
  have g: "get_group (read_mallet_word_weights tbl) topic_nr = Inr ?rs"
    using assms(1) by (rule get_group_read)
  have tw: "topic_words (read_mallet_word_weights tbl) k topic_nr =
      Inr (map col1 (take (nat k) ?rs))"
    using assms(2) by (simp add: topic_words_def g iloc_0_to_def)
  have gw: "\<forall>ws. map col1 (take (nat k) ?rs) = map Str ws \<longrightarrow>
               get_wordlewords (read_mallet_word_weights tbl) k topic_nr =
                 Inr (concat (map (\<lambda>w. w @ '' '') ws))"
    by (simp add: get_wordlewords_def tw append_words_strings)
  have m: "mset ?rs = mset (filter (\<lambda>r. col0 r = topic_nr) tbl)" by simp
  have s: "sorted_wrt (\<lambda>a b. col2 b \<le> col2 a) ?rs" by (rule sorted_wrt_desc_weight)
  have l: "length (take (nat k) ?rs) =
      min (nat k) (length (filter (\<lambda>r. col0 r = topic_nr) tbl))"
    by simp
  have a: "sorted_wrt topic_asc_weight_desc (frame (read_mallet_word_weights tbl))"
    by (simp add: read_mallet_word_weights_def sort_0_asc_2_desc_sorted)
  have b: "mset (frame (read_mallet_word_weights tbl)) = mset tbl"
    by (simp add: read_mallet_word_weights_def sort_0_asc_2_desc_mset)
  show ?thesis
    by (intro conjI a b exI [of _ ?rs] m s g tw l gw)
qed

theorem mallet_sorted_then_top_k_witness:
  "(0::int) \<in> col0 ` set mallet_example \<and> (0::int) \<le> 1
   \<and> sorted_wrt topic_asc_weight_desc (frame (read_mallet_word_weights mallet_example))
   \<and> topic_words (read_mallet_word_weights mallet_example) 1 0 = Inr (map Str [''cat''])
   \<and> get_wordlewords (read_mallet_word_weights mallet_example) 1 0 =
       Inr (concat (map (\<lambda>w. w @ '' '') [''cat'']))"
proof -
  have h1: "(0::int) \<in> col0 ` set mallet_example"
    by (simp add: mallet_example_def col0_def)
  have h2: "(0::int) \<le> 1" by simp
  have e: "topic_words (read_mallet_word_weights mallet_example) 1 0 = Inr (map Str [''cat''])"
    by (simp add: topic_words_def get_group_def read_mallet_word_weights_def
        sort_0_asc_2_desc_def mallet_example_def col0_def col1_def col2_def iloc_0_to_def)
  from mallet_sorted_then_top_k [OF h1 h2] obtain rs where
    srt: "sorted_wrt topic_asc_weight_desc (frame (read_mallet_word_weights mallet_example))"
    and tw: "topic_words (read_mallet_word_weights mallet_example) 1 0 =
               Inr (map col1 (take (nat 1) rs))"
    and gw: "\<forall>ws. map col1 (take (nat 1) rs) = map Str ws \<longrightarrow>
               get_wordlewords (read_mallet_word_weights mallet_example) 1 0 =
                 Inr (concat (map (\<lambda>w. w @ '' '') ws))"
    by (elim conjE exE)
  from tw e have eq: "map col1 (take (nat 1) rs) = map Str [''cat'']" by simp
  from gw have "map col1 (take (nat 1) rs) = map Str [''cat''] \<longrightarrow>
       get_wordlewords (read_mallet_word_weights mallet_example) 1 0 =
         Inr (concat (map (\<lambda>w. w @ '' '') [''cat'']))"
    by (rule spec)
  from this eq have w: "get_wordlewords (read_mallet_word_weights mallet_example) 1 0 =
       Inr (concat (map (\<lambda>w. w @ '' '') [''cat'']))"
    by (rule mp)
  show ?thesis
    by (rule conjI [OF h1 conjI [OF h2 conjI [OF srt conjI [OF e w]]]])
qed

text \<open>
  Claim C4, as it is stated, fails for a table in which the heaviest word of a topic was
  read as a missing value: \<^verbatim>\<open>get_wordlewords\<close> raises TypeError and returns no word.
\<close>

theorem mallet_nan_word_counterexample:
  "(0::int) \<in> col0 ` set nan_example
   \<and> topic_words (read_mallet_word_weights nan_example) 1 0 = Inr [NaN]
   \<and> get_wordlewords (read_mallet_word_weights nan_example) 1 0 = Inl TypeError"
  by (simp add: get_wordlewords_def topic_words_def get_group_def read_mallet_word_weights_def
      sort_0_asc_2_desc_def nan_example_def col0_def col1_def col2_def iloc_0_to_def)

text \<open>
  Claim C5. For the table with the rows (0, cat, 0.9), (0, dog, 0.4), (1, fish, 0.2),
  \<^verbatim>\<open>get_wordlewords\<close> with \<open>number_of_top_words = 1\<close> and \<open>topic_nr = 0\<close> returns the
  word cat followed by one space.
\<close>

theorem get_wordlewords_cat:
  "get_wordlewords (read_mallet_word_weights mallet_example) 1 0 = Inr ''cat ''"
  by (simp add: get_wordlewords_def topic_words_def get_group_def read_mallet_word_weights_def
      sort_0_asc_2_desc_def mallet_example_def col0_def col1_def col2_def iloc_0_to_def)

text \<open>
  Claim C6. For a grouped table and a topic id that is the topic id of none of its rows,
  \<^verbatim>\<open>get_wordlewords\<close> raises the \<^verbatim>\<open>KeyError\<close> of \<^verbatim>\<open>get_group\<close>, which names the
  requested key; it returns no string, empty or not.
\<close>

theorem get_wordlewords_absent_topic:
  assumes "topic_nr \<notin> col0 ` set (frame g)"
  shows "get_wordlewords g n topic_nr = Inl (KeyError topic_nr)"
proof -
  have "filter (\<lambda>r. col0 r = topic_nr) (frame g) = []"
    using assms by (auto simp: filter_empty_conv)
  then show ?thesis
    by (simp add: get_wordlewords_def topic_words_def get_group_def)
qed

theorem get_wordlewords_absent_topic_witness:
  "(2::int) \<notin> col0 ` set (frame (read_mallet_word_weights mallet_example))
   \<and> get_wordlewords (read_mallet_word_weights mallet_example) 1 2 = Inl (KeyError 2)"
proof -
  have h: "(2::int) \<notin> col0 ` set (frame (read_mallet_word_weights mallet_example))"
    by (simp add: read_mallet_word_weights_def sort_0_asc_2_desc_def mallet_example_def col0_def)
  from get_wordlewords_absent_topic [OF h] h show ?thesis by blast
qed

section \<open>Properties of the matrix builder\<close>

lemma np_setitem_length: "np_setitem row k v = Inr row' \<Longrightarrow> length row' = length row"
  by (auto simp: np_setitem_def Let_def split: if_splits)

lemma np_setitem_error: "np_setitem row k v = Inl e \<Longrightarrow> e = IndexError k (length row)"
  by (auto simp: np_setitem_def Let_def split: if_splits)

lemma store_topic_dist_length:
  "store_topic_dist row ps = Inr row' \<Longrightarrow> length row' = length row"
proof (induction ps arbitrary: row)
  case Nil
  then show ?case by simp
next
  case (Cons p ps)
  then show ?case
    by (auto split: sum.splits dest: np_setitem_length)
qed

lemma store_topic_dist_error:
  "store_topic_dist row ps = Inl e \<Longrightarrow> \<exists>k. e = IndexError k (length row)"
proof (induction ps arbitrary: row)
  case Nil
  then show ?case by simp
next
  case (Cons p ps)
  show ?case
  proof (cases "np_setitem row (fst p) (snd p)")
    case (Inl e')
    with Cons.prems have "e = e'" by simp
    with Inl show ?thesis by (auto dest: np_setitem_error)
  next
    case (Inr row1)
    with Cons.prems have "store_topic_dist row1 ps = Inl e" by simp
    from Cons.IH [OF this] np_setitem_length [OF Inr] show ?thesis by simp
  qed
qed

lemma store_topic_dist_out_of_range:
  assumes "p \<in> set ps" and "int (length row) \<le> fst p"
  shows "\<exists>k. store_topic_dist row ps = Inl (IndexError k (length row))"
  using assms
proof (induction ps arbitrary: row)
  case Nil
  then show ?case by simp
next
  case (Cons q ps)
  show ?case
  proof (cases "np_setitem row (fst q) (snd q)")
    case (Inl e)
    then show ?thesis by (auto dest: np_setitem_error)
  next
    case (Inr row1)
    then have len: "length row1 = length row" by (rule np_setitem_length)
    have "p \<noteq> q"
    proof
      assume "p = q"
      with Cons.prems(2) have "np_setitem row (fst q) (snd q) = Inl (IndexError (fst q) (length row))"
        by (simp add: np_setitem_def Let_def)
      with Inr show False by simp
    qed
    with Cons.prems(1) have "p \<in> set ps" by simp
    from Cons.IH [OF this, of row1] Cons.prems(2) len Inr show ?thesis by simp
  qed
qed

lemma store_topic_dist_ok:
  assumes "\<forall>p\<in>set ps. 0 \<le> fst p \<and> fst p < int (length row)"
  shows "\<exists>row'. store_topic_dist row ps = Inr row' \<and> length row' = length row
           \<and> (\<forall>t<length row. row' ! t =
                 (case map_of (rev ps) (int t) of None \<Rightarrow> row ! t | Some w \<Rightarrow> w))"
  using assms
proof (induction ps arbitrary: row)
  case Nil
  then show ?case by simp
next
  case (Cons p ps)
  obtain tid w where p: "p = (tid, w)" by (cases p)
  from Cons.prems p have tid: "0 \<le> tid" "tid < int (length row)" by auto
  let ?row1 = "row[nat tid := w]"
  have set1: "np_setitem row tid w = Inr ?row1"
    using tid by (simp add: np_setitem_def Let_def)
  have "\<forall>q\<in>set ps. 0 \<le> fst q \<and> fst q < int (length ?row1)"
    using Cons.prems by simp
  from Cons.IH [OF this] obtain row' where
    r: "store_topic_dist ?row1 ps = Inr row'" "length row' = length ?row1"
    and c: "\<forall>t<length ?row1. row' ! t =
                 (case map_of (rev ps) (int t) of None \<Rightarrow> ?row1 ! t | Some w \<Rightarrow> w)"
    by blast
  have "row' ! t = (case map_of (rev (p # ps)) (int t) of None \<Rightarrow> row ! t | Some w \<Rightarrow> w)"
    if "t < length row" for t
  proof -
    from c that have "row' ! t =
       (case map_of (rev ps) (int t) of None \<Rightarrow> ?row1 ! t | Some w \<Rightarrow> w)" by simp
    moreover have "?row1 ! t = (if int t = tid then w else row ! t)"
      using that tid by (auto simp: nth_list_update)
    ultimately show ?thesis
      by (simp add: p map_add_def split: option.splits)
  qed
  with r set1 show ?case by (simp add: p)
qed

text \<open>
  The outer loop, for any list of (document, row index) pairs with distinct row indices:
  each listed row becomes what the inner loop makes of it, every other row stays.
\<close>

lemma fill_doc_topic_ok:
  assumes "distinct (map snd dis)"
    and "\<forall>di\<in>set dis. snd di < length m"
    and "\<forall>row\<in>set m. length row = n"
    and "\<forall>di\<in>set dis. \<forall>p\<in>set (getitem model (fst di)). 0 \<le> fst p \<and> fst p < int n"
  shows "\<exists>m'. fill_doc_topic model dis m = Inr m' \<and> length m' = length m
           \<and> (\<forall>row\<in>set m'. length row = n)
           \<and> (\<forall>di\<in>set dis. store_topic_dist (m ! snd di) (getitem model (fst di)) = Inr (m' ! snd di))
           \<and> (\<forall>i<length m. i \<notin> snd ` set dis \<longrightarrow> m' ! i = m ! i)"
  using assms
proof (induction dis arbitrary: m)
  case Nil
  then show ?case by simp
next
  case (Cons di dis)
  obtain doc i where di: "di = (doc, i)" by (cases di)
  from Cons.prems(2) di have i: "i < length m" by simp
  with Cons.prems(3) have leni: "length (m ! i) = n" by simp
  have "\<forall>p\<in>set (getitem model doc). 0 \<le> fst p \<and> fst p < int (length (m ! i))"
    using Cons.prems(4) di leni by simp
  from store_topic_dist_ok [OF this] obtain row where
    row: "store_topic_dist (m ! i) (getitem model doc) = Inr row" "length row = n"
    using leni by auto
  let ?m1 = "m[i := row]"
  have p1: "distinct (map snd dis)" using Cons.prems(1) by simp
  have p2: "\<forall>dj\<in>set dis. snd dj < length ?m1" using Cons.prems(2) by simp
  have p3: "\<forall>r\<in>set ?m1. length r = n"
    using Cons.prems(3) row(2) by (auto dest: subsetD [OF set_update_subset_insert])
  have p4: "\<forall>dj\<in>set dis. \<forall>p\<in>set (getitem model (fst dj)). 0 \<le> fst p \<and> fst p < int n"
    using Cons.prems(4) by simp
  from Cons.IH [OF p1 p2 p3 p4] obtain m' where
    f: "fill_doc_topic model dis ?m1 = Inr m'" "length m' = length ?m1"
    and rows: "\<forall>row\<in>set m'. length row = n"
    and filled: "\<forall>dj\<in>set dis. store_topic_dist (?m1 ! snd dj) (getitem model (fst dj)) = Inr (m' ! snd dj)"
    and rest: "\<forall>j<length ?m1. j \<notin> snd ` set dis \<longrightarrow> m' ! j = ?m1 ! j"
    by blast
  have inotin: "i \<notin> snd ` set dis" using Cons.prems(1) di by auto
  have a: "fill_doc_topic model (di # dis) m = Inr m'"
    by (simp add: di row(1) f(1))
  have b: "length m' = length m" using f(2) by simp
  have head: "m' ! i = row" using rest i inotin by simp
  have c: "store_topic_dist (m ! snd dj) (getitem model (fst dj)) = Inr (m' ! snd dj)"
    if "dj \<in> set (di # dis)" for dj
  proof (cases "dj = di")
    case True
    then show ?thesis by (simp add: di row(1) head)
  next
    case False
    with that have in_dis: "dj \<in> set dis" by simp
    then have "snd dj \<noteq> i" using inotin by auto
    then have "?m1 ! snd dj = m ! snd dj" by simp
    with filled in_dis show ?thesis by auto
  qed
  have d: "m' ! j = m ! j" if "j < length m" "j \<notin> snd ` set (di # dis)" for j
  proof -
    from that(2) di have "j \<noteq> i" "j \<notin> snd ` set dis" by auto
    with rest that(1) show ?thesis by simp
  qed
  from a b rows c d show ?case by blast
qed

lemma fill_doc_topic_error:
  assumes "(doc, i) \<in> set dis"
    and "p \<in> set (getitem model doc)" and "int n \<le> fst p"
    and "\<forall>di\<in>set dis. snd di < length m"
    and "\<forall>row\<in>set m. length row = n"
  shows "\<exists>k. fill_doc_topic model dis m = Inl (IndexError k n)"
  using assms
proof (induction dis arbitrary: m)
  case Nil
  then show ?case by simp
next
  case (Cons dj dis)
  obtain doc' j where dj: "dj = (doc', j)" by (cases dj)
  from Cons.prems(4) dj have j: "j < length m" by simp
  with Cons.prems(5) have lenj: "length (m ! j) = n" by simp
  show ?case
  proof (cases "store_topic_dist (m ! j) (getitem model doc')")
    case (Inl e)
    from store_topic_dist_error [OF Inl] lenj obtain k where "e = IndexError k n" by auto
    with Inl show ?thesis by (auto simp: dj)
  next
    case (Inr row)
    have "doc' \<noteq> doc"
    proof
      assume "doc' = doc"
      with store_topic_dist_out_of_range [of p "getitem model doc" "m ! j"] Cons.prems(2,3) lenj Inr
      show False by auto
    qed
    with Cons.prems(1) dj have in_dis: "(doc, i) \<in> set dis" by auto
    have len: "length row = n" using store_topic_dist_length [OF Inr] lenj by simp
    have p4: "\<forall>di\<in>set dis. snd di < length (m[j := row])" using Cons.prems(4) by simp
    have p5: "\<forall>r\<in>set (m[j := row]). length r = n"
      using Cons.prems(5) len by (auto dest: subsetD [OF set_update_subset_insert])
    from Cons.IH [OF in_dis Cons.prems(2) Cons.prems(3) p4 p5] Inr
    show ?thesis by (simp add: dj)
  qed
qed

lemma np_zeros_nth: "i < rows \<Longrightarrow> np_zeros rows cols ! i = replicate cols 0"
  by (simp add: np_zeros_def)

lemma zip_upt_mem:
  "di \<in> set (zip xs [0..<d]) \<longleftrightarrow> (\<exists>i. i < length xs \<and> i < d \<and> di = (xs ! i, i))"
proof
  assume "di \<in> set (zip xs [0..<d])"
  then obtain n where n: "xs ! n = fst di" "[0..<d] ! n = snd di" "n < length xs" "n < length [0..<d]"
    by (auto simp: in_set_zip)
  then have "n < d" "snd di = n" by simp_all
  with n show "\<exists>i. i < length xs \<and> i < d \<and> di = (xs ! i, i)"
    by (intro exI [of _ n]) (simp add: prod_eq_iff)
next
  assume "\<exists>i. i < length xs \<and> i < d \<and> di = (xs ! i, i)"
  then obtain i where "i < length xs" "i < d" "di = (xs ! i, i)" by blast
  then show "di \<in> set (zip xs [0..<d])"
    by (simp add: in_set_zip) (intro exI [of _ i], simp)
qed

lemma doc_topic_matrix_cells:
  assumes "\<forall>i<min (length corpus) (length doc_labels).
             \<forall>p\<in>set (getitem model (corpus ! i)). 0 \<le> fst p \<and> fst p < int (num_topics model)"
  shows "\<exists>m. doc_topic_matrix corpus model doc_labels = Inr m
           \<and> length m = length doc_labels
           \<and> (\<forall>row\<in>set m. length row = num_topics model)
           \<and> (\<forall>i<length doc_labels. \<forall>t<num_topics model.
                 m ! i ! t = (if i < length corpus
                    then (case map_of (rev (getitem model (corpus ! i))) (int t) of
                            None \<Rightarrow> 0 | Some w \<Rightarrow> w)
                    else 0))"
proof -
  let ?d = "length doc_labels" and ?n = "num_topics model"
  let ?dis = "zip corpus [0..<?d]" and ?z = "np_zeros ?d ?n"
  have mem: "di \<in> set ?dis \<longleftrightarrow> (\<exists>i. i < length corpus \<and> i < ?d \<and> di = (corpus ! i, i))" for di
    by (rule zip_upt_mem)
  have h1: "distinct (map snd ?dis)"
    by (simp add: map_snd_zip_take)
  have h2: "\<forall>di\<in>set ?dis. snd di < length ?z"
    by (auto simp: mem np_zeros_def)
  have h3: "\<forall>row\<in>set ?z. length row = ?n"
    by (auto simp: np_zeros_def)
  have h4: "\<forall>di\<in>set ?dis. \<forall>p\<in>set (getitem model (fst di)). 0 \<le> fst p \<and> fst p < int ?n"
  proof (intro ballI)
    fix di p assume "di \<in> set ?dis" and p: "p \<in> set (getitem model (fst di))"
    then obtain i where "i < length corpus" "i < ?d" "di = (corpus ! i, i)"
      by (auto simp: mem)
    with assms p show "0 \<le> fst p \<and> fst p < int ?n" by simp
  qed
  from fill_doc_topic_ok [OF h1 h2 h3 h4] obtain m where
    f: "fill_doc_topic model ?dis ?z = Inr m" and len: "length m = length ?z"
    and rows: "\<forall>row\<in>set m. length row = ?n"
    and filled: "\<forall>di\<in>set ?dis. store_topic_dist (?z ! snd di) (getitem model (fst di)) = Inr (m ! snd di)"
    and rest: "\<forall>i<length ?z. i \<notin> snd ` set ?dis \<longrightarrow> m ! i = ?z ! i"
    by blast
  have cell: "m ! i ! t = (if i < length corpus
                    then (case map_of (rev (getitem model (corpus ! i))) (int t) of
                            None \<Rightarrow> 0 | Some w \<Rightarrow> w)
                    else 0)" if i: "i < ?d" and t: "t < ?n" for i t
  proof (cases "i < length corpus")
    case True
    with i have "(corpus ! i, i) \<in> set ?dis" by (auto simp: mem)
    with filled i have s: "store_topic_dist (replicate ?n 0) (getitem model (corpus ! i)) = Inr (m ! i)"
      by (fastforce simp: np_zeros_nth)
    have "\<forall>p\<in>set (getitem model (corpus ! i)). 0 \<le> fst p \<and> fst p < int (length (replicate ?n (0::real)))"
      using assms True i by simp
    from store_topic_dist_ok [OF this] s t True show ?thesis
      by (auto split: option.splits)
  next
    case False
    then have "i \<notin> snd ` set ?dis" by (auto simp: mem)
    with rest i have "m ! i = replicate ?n 0" by (simp add: np_zeros_def)
    with False t show ?thesis by simp
  qed
  have "doc_topic_matrix corpus model doc_labels = Inr m"
    by (simp add: doc_topic_matrix_def f)
  moreover have "length m = ?d" using len by (simp add: np_zeros_def)
  ultimately show ?thesis using rows cell by blast
qed

lemma doc_topic_matrix_take:
  "doc_topic_matrix (take (length doc_labels) corpus) model doc_labels =
   doc_topic_matrix corpus model doc_labels"
proof -
  have "zip (take (length doc_labels) corpus) [0..<length doc_labels] = zip corpus [0..<length doc_labels]"
  proof -
    have "zip (take (length doc_labels) corpus) [0..<length doc_labels] =
          take (length doc_labels) (zip corpus [0..<length doc_labels])"
      by (simp add: take_zip)
    also have "\<dots> = zip corpus [0..<length doc_labels]"
      by simp
    finally show ?thesis .
  qed
  then show ?thesis by (simp add: doc_topic_matrix_def)
qed

lemma doc_topic_matrix_error:
  assumes "i < length corpus" and "i < length doc_labels"
    and "p \<in> set (getitem model (corpus ! i))" and "int (num_topics model) \<le> fst p"
  shows "\<exists>k. doc_topic_matrix corpus model doc_labels = Inl (IndexError k (num_topics model))"
proof -
  let ?d = "length doc_labels" and ?n = "num_topics model"
  have a: "(corpus ! i, i) \<in> set (zip corpus [0..<?d])"
    using assms(1,2) by (auto simp: zip_upt_mem)
  have b: "\<forall>di\<in>set (zip corpus [0..<?d]). snd di < length (np_zeros ?d ?n)"
    by (auto simp: zip_upt_mem np_zeros_def)
  have c: "\<forall>row\<in>set (np_zeros ?d ?n). length row = ?n"
    by (auto simp: np_zeros_def)
  from fill_doc_topic_error [OF a assms(3) assms(4) b c]
  show ?thesis by (simp add: doc_topic_matrix_def Let_def)
qed

lemma length_topic_labels_of: "length (topic_labels_of model) = num_topics model"
  by (simp add: topic_labels_of_def)

lemma scenario_matrix:
  "doc_topic_matrix scenario_corpus scenario_model scenario_doc_labels = Inr [[0.7, 0.3], [0, 1]]"
  by (simp add: doc_topic_matrix_def scenario_corpus_def scenario_model_def
      scenario_doc_labels_def np_zeros_def np_setitem_def Let_def upt_rec numeral_2_eq_2)

lemma scenario_labels: "topic_labels_of scenario_model = [''a b c'', ''d e f'']"
  by (simp add: topic_labels_of_def scenario_model_def upt_rec numeral_2_eq_2 numeral_3_eq_3)

text \<open>
  Claim C1. For a corpus with as many documents as there are labels, and a model all of
  whose topic ids are column indices of the matrix (\<open>0 \<le> topic_id < num_topics\<close>),
  the loop of \<^verbatim>\<open>create_doc_topic\<close> returns a matrix \<open>m\<close> with one row for each document
  and \<open>num_topics\<close> cells in each row; the cell \<open>m[i][t]\<close> holds the weight that the
  assignment of document \<open>i\<close> gives topic \<open>t\<close> (the last one, should it give several) and
  is \<open>0\<close> when the assignment does not mention \<open>t\<close>. What \<^verbatim>\<open>create_doc_topic\<close> returns
  is the transpose of this matrix with its labels.
\<close>

theorem doc_topic_matrix_shape_and_cells:
  assumes "length corpus = length doc_labels"
    and "\<forall>doc\<in>set corpus. \<forall>p\<in>set (getitem model doc). 0 \<le> fst p \<and> fst p < int (num_topics model)"
  shows "\<exists>m. doc_topic_matrix corpus model doc_labels = Inr m
           \<and> length m = length doc_labels
           \<and> (\<forall>row\<in>set m. length row = num_topics model)
           \<and> (\<forall>i<length doc_labels. \<forall>t<num_topics model.
                 m ! i ! t = (case map_of (rev (getitem model (corpus ! i))) (int t) of
                                None \<Rightarrow> 0 | Some w \<Rightarrow> w))
           \<and> create_doc_topic corpus model doc_labels =
               Inr (df_transpose
                      \<lparr>index = doc_labels, columns = topic_labels_of model, cells = m\<rparr>)"
proof -
  have "\<forall>i<min (length corpus) (length doc_labels).
             \<forall>p\<in>set (getitem model (corpus ! i)). 0 \<le> fst p \<and> fst p < int (num_topics model)"
  proof (intro allI impI)
    fix i assume "i < min (length corpus) (length doc_labels)"
    then have "corpus ! i \<in> set corpus" by simp
    with assms(2) show "\<forall>p\<in>set (getitem model (corpus ! i)). 0 \<le> fst p \<and> fst p < int (num_topics model)"
      by blast
  qed
  from doc_topic_matrix_cells [OF this] obtain m where
    m: "doc_topic_matrix corpus model doc_labels = Inr m" "length m = length doc_labels"
       "\<forall>row\<in>set m. length row = num_topics model"
    and c: "\<forall>i<length doc_labels. \<forall>t<num_topics model.
                 m ! i ! t = (if i < length corpus
                    then (case map_of (rev (getitem model (corpus ! i))) (int t) of
                            None \<Rightarrow> 0 | Some w \<Rightarrow> w)
                    else 0)"
    by blast
  from c assms(1) have "\<forall>i<length doc_labels. \<forall>t<num_topics model.
                 m ! i ! t = (case map_of (rev (getitem model (corpus ! i))) (int t) of
                                None \<Rightarrow> 0 | Some w \<Rightarrow> w)"
    by simp
  moreover have "create_doc_topic corpus model doc_labels =
               Inr (df_transpose
                      \<lparr>index = doc_labels, columns = topic_labels_of model, cells = m\<rparr>)"
    by (simp add: create_doc_topic_def m(1))
  ultimately show ?thesis using m by blast
qed

theorem doc_topic_matrix_shape_and_cells_witness:
  "length scenario_corpus = length scenario_doc_labels
   \<and> list_all (\<lambda>doc. list_all (\<lambda>p. 0 \<le> fst p \<and> fst p < int (num_topics scenario_model))
                   (getitem scenario_model doc)) scenario_corpus
   \<and> (\<exists>m. doc_topic_matrix scenario_corpus scenario_model scenario_doc_labels = Inr m
           \<and> length m = length scenario_doc_labels
           \<and> (\<forall>row\<in>set m. length row = num_topics scenario_model)
           \<and> (\<forall>i<length scenario_doc_labels. \<forall>t<num_topics scenario_model.
                 m ! i ! t = (case map_of (rev (getitem scenario_model (scenario_corpus ! i))) (int t) of
                                None \<Rightarrow> 0 | Some w \<Rightarrow> w))
           \<and> create_doc_topic scenario_corpus scenario_model scenario_doc_labels =
               Inr (df_transpose
                      \<lparr>index = scenario_doc_labels, columns = topic_labels_of scenario_model,
                       cells = m\<rparr>))"
proof -
  have h1: "length scenario_corpus = length scenario_doc_labels"
    by (simp add: scenario_corpus_def scenario_doc_labels_def)
  have h2: "\<forall>doc\<in>set scenario_corpus. \<forall>p\<in>set (getitem scenario_model doc).
         0 \<le> fst p \<and> fst p < int (num_topics scenario_model)"
    by (simp add: scenario_corpus_def scenario_model_def)
  have h2': "list_all (\<lambda>doc. list_all (\<lambda>p. 0 \<le> fst p \<and> fst p < int (num_topics scenario_model))
                   (getitem scenario_model doc)) scenario_corpus"
    using h2 by (simp add: list_all_iff)
  note c = doc_topic_matrix_shape_and_cells [OF h1 h2]
  show ?thesis
    by (rule conjI [OF h1 conjI [OF h2' c]])
qed

text \<open>
  Claim C2, as the code has it. For the scenario's input \<^verbatim>\<open>create_doc_topic\<close> returns
  the frame with the topic labels \<open>a b c\<close>, \<open>d e f\<close> on the rows, the document labels
  \<open>doc1\<close>, \<open>doc2\<close> on the columns and the cells \<open>[[0.7, 0.0], [0.3, 1.0]]\<close>: the transpose
  of the matrix \<open>[[0.7, 0.3], [0.0, 1.0]]\<close> that the loop builds.
\<close>

theorem scenario_frame:
  "create_doc_topic scenario_corpus scenario_model scenario_doc_labels =
     Inr \<lparr>index = [''a b c'', ''d e f''], columns = [''doc1'', ''doc2''],
          cells = [[0.7, 0], [0.3, 1]]\<rparr>"
  unfolding create_doc_topic_def scenario_matrix scenario_labels
  by (simp add: df_transpose_def scenario_doc_labels_def upt_rec numeral_2_eq_2)

text \<open>
  Claim C2, as it is stated, fails: the returned frame is not the one with the documents
  on the rows, and its cells are not \<open>[[0.7, 0.3], [0.0, 1.0]]\<close>.
\<close>

theorem scenario_frame_counterexample:
  "create_doc_topic scenario_corpus scenario_model scenario_doc_labels \<noteq>
     Inr \<lparr>index = [''doc1'', ''doc2''], columns = [''a b c'', ''d e f''],
          cells = [[0.7, 0.3], [0, 1]]\<rparr>
   \<and> map_sum id cells (create_doc_topic scenario_corpus scenario_model scenario_doc_labels) \<noteq>
     Inr [[0.7, 0.3], [0, 1]]"
  unfolding create_doc_topic_def scenario_matrix scenario_labels
  by (simp add: df_transpose_def scenario_doc_labels_def upt_rec numeral_2_eq_2)

text \<open>
  Claim C3, as the code has it. (1) If a document that has a label, that is one of the
  first \<open>len(doc_labels)\<close> documents, is assigned a topic id \<open>\<ge> num_topics\<close>, then
  \<^verbatim>\<open>create_doc_topic\<close> raises numpy's IndexError for a row of size \<open>num_topics\<close>.
  (2) If the topic ids of the documents that have a label are all in range, it returns a
  frame with one column for each label, whatever the number of documents: the columns of
  the labels beyond the last document are all zero. (3) The documents beyond the last
  label have no effect on the result.
\<close>

theorem create_doc_topic_mismatch:
  "(i < length corpus \<and> i < length doc_labels \<and> p \<in> set (getitem model (corpus ! i))
      \<and> int (num_topics model) \<le> fst p
      \<longrightarrow> (\<exists>k. create_doc_topic corpus model doc_labels = Inl (IndexError k (num_topics model))))
   \<and> ((\<forall>j<min (length corpus) (length doc_labels). \<forall>q\<in>set (getitem model (corpus ! j)).
          0 \<le> fst q \<and> fst q < int (num_topics model))
      \<longrightarrow> (\<exists>df. create_doc_topic corpus model doc_labels = Inr df
             \<and> index df = topic_labels_of model \<and> columns df = doc_labels
             \<and> length (cells df) = num_topics model
             \<and> (\<forall>row\<in>set (cells df). length row = length doc_labels)
             \<and> (\<forall>t<num_topics model. \<forall>j<length doc_labels.
                   length corpus \<le> j \<longrightarrow> cells df ! t ! j = 0)))
   \<and> create_doc_topic corpus model doc_labels =
       create_doc_topic (take (length doc_labels) corpus) model doc_labels"
proof (intro conjI impI)
  assume "i < length corpus \<and> i < length doc_labels \<and> p \<in> set (getitem model (corpus ! i))
      \<and> int (num_topics model) \<le> fst p"
  then have "\<exists>k. doc_topic_matrix corpus model doc_labels = Inl (IndexError k (num_topics model))"
    by (intro doc_topic_matrix_error [of i corpus doc_labels p model]) simp_all
  then show "\<exists>k. create_doc_topic corpus model doc_labels = Inl (IndexError k (num_topics model))"
    by (auto simp: create_doc_topic_def)
next
  assume "\<forall>j<min (length corpus) (length doc_labels). \<forall>q\<in>set (getitem model (corpus ! j)).
          0 \<le> fst q \<and> fst q < int (num_topics model)"
  from doc_topic_matrix_cells [OF this] obtain m where
    m: "doc_topic_matrix corpus model doc_labels = Inr m" and len: "length m = length doc_labels"
    and rows: "\<forall>row\<in>set m. length row = num_topics model"
    and c: "\<forall>i<length doc_labels. \<forall>t<num_topics model.
                 m ! i ! t = (if i < length corpus
                    then (case map_of (rev (getitem model (corpus ! i))) (int t) of
                            None \<Rightarrow> 0 | Some w \<Rightarrow> w)
                    else 0)"
    by blast
  let ?df = "df_transpose \<lparr>index = doc_labels, columns = topic_labels_of model, cells = m\<rparr>"
  have a: "create_doc_topic corpus model doc_labels = Inr ?df"
    by (simp add: create_doc_topic_def m)
  have b: "index ?df = topic_labels_of model" "columns ?df = doc_labels"
    "length (cells ?df) = num_topics model"
    by (simp_all add: df_transpose_def length_topic_labels_of)
  have d: "\<forall>row\<in>set (cells ?df). length row = length doc_labels"
    by (auto simp: df_transpose_def len)
  have e: "cells ?df ! t ! j = 0" if "t < num_topics model" "j < length doc_labels" "length corpus \<le> j" for t j
  proof -
    have "cells ?df ! t ! j = m ! j ! t"
      using that len by (simp add: df_transpose_def length_topic_labels_of)
    with c that show ?thesis by simp
  qed
  from a b d e show "\<exists>df. create_doc_topic corpus model doc_labels = Inr df
             \<and> index df = topic_labels_of model \<and> columns df = doc_labels
             \<and> length (cells df) = num_topics model
             \<and> (\<forall>row\<in>set (cells df). length row = length doc_labels)
             \<and> (\<forall>t<num_topics model. \<forall>j<length doc_labels.
                   length corpus \<le> j \<longrightarrow> cells df ! t ! j = 0)"
    by blast
next
  show "create_doc_topic corpus model doc_labels =
       create_doc_topic (take (length doc_labels) corpus) model doc_labels"
    by (simp add: create_doc_topic_def doc_topic_matrix_take)
qed

theorem create_doc_topic_mismatch_witness:
  "((0::nat) < length out_of_range_corpus \<and> (0::nat) < length scenario_doc_labels
      \<and> (2, 1) \<in> set (getitem scenario_model (out_of_range_corpus ! 0))
      \<and> int (num_topics scenario_model) \<le> fst (2::int, 1::real))
   \<and> (\<exists>k. create_doc_topic out_of_range_corpus scenario_model scenario_doc_labels =
          Inl (IndexError k (num_topics scenario_model)))
   \<and> list_all (\<lambda>doc. list_all (\<lambda>q. 0 \<le> fst q \<and> fst q < int (num_topics scenario_model))
                   (getitem scenario_model doc)) one_doc_corpus
   \<and> (\<exists>df. create_doc_topic one_doc_corpus scenario_model scenario_doc_labels = Inr df
          \<and> index df = topic_labels_of scenario_model \<and> columns df = scenario_doc_labels
          \<and> length (cells df) = num_topics scenario_model
          \<and> (\<forall>row\<in>set (cells df). length row = length scenario_doc_labels)
          \<and> (\<forall>t<num_topics scenario_model. \<forall>j<length scenario_doc_labels.
                   length one_doc_corpus \<le> j \<longrightarrow> cells df ! t ! j = 0))"
proof -
  have h1: "(0::nat) < length out_of_range_corpus \<and> (0::nat) < length scenario_doc_labels
      \<and> (2, 1) \<in> set (getitem scenario_model (out_of_range_corpus ! 0))
      \<and> int (num_topics scenario_model) \<le> fst (2::int, 1::real)"
    by (simp add: scenario_model_def scenario_doc_labels_def out_of_range_corpus_def)
  have h2: "\<forall>j<min (length one_doc_corpus) (length scenario_doc_labels).
         \<forall>q\<in>set (getitem scenario_model (one_doc_corpus ! j)).
          0 \<le> fst q \<and> fst q < int (num_topics scenario_model)"
    by (simp add: scenario_model_def scenario_doc_labels_def one_doc_corpus_def)
  have h2': "list_all (\<lambda>doc. list_all (\<lambda>q. 0 \<le> fst q \<and> fst q < int (num_topics scenario_model))
                   (getitem scenario_model doc)) one_doc_corpus"
    by (simp add: scenario_model_def one_doc_corpus_def)
  note t1 = create_doc_topic_mismatch
    [of 0 out_of_range_corpus scenario_doc_labels "(2, 1)" scenario_model]
  note t2 = create_doc_topic_mismatch
    [of 0 one_doc_corpus scenario_doc_labels "(2, 1)" scenario_model]
  have a: "\<exists>k. create_doc_topic out_of_range_corpus scenario_model scenario_doc_labels =
          Inl (IndexError k (num_topics scenario_model))"
    by (rule mp [OF conjunct1 [OF t1] h1])
  note b = mp [OF conjunct1 [OF conjunct2 [OF t2]] h2]
  show ?thesis
    by (rule conjI [OF h1 conjI [OF a conjI [OF h2' b]]])
qed

text \<open>
  Claim C3, as it is stated, fails: with three documents and two labels, and with one
  document and two labels, \<^verbatim>\<open>create_doc_topic\<close> returns a frame and raises nothing.
\<close>

theorem create_doc_topic_mismatch_counterexample:
  "length three_doc_corpus \<noteq> length scenario_doc_labels
   \<and> create_doc_topic three_doc_corpus scenario_model scenario_doc_labels =
       Inr \<lparr>index = [''a b c'', ''d e f''], columns = [''doc1'', ''doc2''],
            cells = [[0.7, 0], [0.3, 1]]\<rparr>
   \<and> length one_doc_corpus \<noteq> length scenario_doc_labels
   \<and> create_doc_topic one_doc_corpus scenario_model scenario_doc_labels =
       Inr \<lparr>index = [''a b c'', ''d e f''], columns = [''doc1'', ''doc2''],
            cells = [[0.7, 0], [0.3, 0]]\<rparr>"
proof -
  have m1: "doc_topic_matrix three_doc_corpus scenario_model scenario_doc_labels =
      Inr [[0.7, 0.3], [0, 1]]"
    by (simp add: doc_topic_matrix_def three_doc_corpus_def scenario_corpus_def scenario_model_def
      scenario_doc_labels_def np_zeros_def np_setitem_def Let_def upt_rec numeral_2_eq_2)
  have m2: "doc_topic_matrix one_doc_corpus scenario_model scenario_doc_labels =
      Inr [[0.7, 0.3], [0, 0]]"
    by (simp add: doc_topic_matrix_def one_doc_corpus_def scenario_model_def
      scenario_doc_labels_def np_zeros_def np_setitem_def Let_def upt_rec numeral_2_eq_2)
  have l1: "length three_doc_corpus \<noteq> length scenario_doc_labels"
    by (simp add: three_doc_corpus_def scenario_corpus_def scenario_doc_labels_def)
  have l2: "length one_doc_corpus \<noteq> length scenario_doc_labels"
    by (simp add: one_doc_corpus_def scenario_doc_labels_def)
  have c1: "create_doc_topic three_doc_corpus scenario_model scenario_doc_labels =
       Inr \<lparr>index = [''a b c'', ''d e f''], columns = [''doc1'', ''doc2''],
            cells = [[0.7, 0], [0.3, 1]]\<rparr>"
    unfolding create_doc_topic_def m1 scenario_labels
    by (simp add: df_transpose_def scenario_doc_labels_def upt_rec numeral_2_eq_2)
  have c2: "create_doc_topic one_doc_corpus scenario_model scenario_doc_labels =
       Inr \<lparr>index = [''a b c'', ''d e f''], columns = [''doc1'', ''doc2''],
            cells = [[0.7, 0], [0.3, 0]]\<rparr>"
    unfolding create_doc_topic_def m2 scenario_labels
    by (simp add: df_transpose_def scenario_doc_labels_def upt_rec numeral_2_eq_2)
  show ?thesis
    by (rule conjI [OF l1 conjI [OF c1 conjI [OF l2 c2]]])
qed

section \<open>Properties of the bar chart\<close>

lemma length_filter_eq_count_list: "length (filter (\<lambda>c. c = y) xs) = count_list xs y"
  by (induction xs) auto

lemma unique_column:
  assumes "j < length xs" and "count_list xs (xs ! j) = 1"
  shows "filter (\<lambda>k. xs ! k = xs ! j) [0..<length xs] = [j]"
proof -
  let ?js = "filter (\<lambda>k. xs ! k = xs ! j) [0..<length xs]"
  have "map (\<lambda>k. xs ! k) ?js = filter (\<lambda>c. c = xs ! j) (map (\<lambda>k. xs ! k) [0..<length xs])"
    by (simp add: filter_map comp_def)
  also have "\<dots> = filter (\<lambda>c. c = xs ! j) xs"
    by (simp add: map_nth)
  finally have "length ?js = length (filter (\<lambda>c. c = xs ! j) xs)"
    by (metis length_map)
  also have "\<dots> = count_list xs (xs ! j)"
    by (rule length_filter_eq_count_list)
  finally have len: "length ?js = 1" using assms(2) by simp
  have mem: "j \<in> set ?js" using assms(1) by simp
  from len obtain k where k: "?js = [k]"
    by (cases ?js) auto
  with mem show ?thesis by simp
qed

lemma py_list_get_valid:
  assumes "- int (length xs) \<le> i" and "i < int (length xs)"
  shows "py_list_get xs i = Inr (xs ! py_index (length xs) i)"
    and "py_index (length xs) i < length xs"
  using assms by (auto simp: py_list_get_def py_index_def Let_def)

text \<open>
  Claim C7, as the code has it. For a document-topic frame, a document index that Python
  accepts for the list of its columns (\<open>-n \<le> i < n\<close> for \<open>n\<close> columns) and a document
  whose label no other column carries, \<^verbatim>\<open>plot_doc_topics\<close> draws the column of that
  document without its zero entries, sorted by value: the bar widths are ascending and
  none of them is \<open>0\<close>, and the (tick label, bar width) pairs are, counted with
  repetitions, the (topic label, value) pairs of the column whose value is not \<open>0\<close>.
\<close>

theorem plot_doc_topics_nonzero_sorted:
  assumes "rectangular df"
    and "- int (length (columns df)) \<le> i" and "i < int (length (columns df))"
    and "count_list (columns df) (columns df ! py_index (length (columns df)) i) = 1"
  shows "\<exists>chart. plot_doc_topics df i = Inr chart
           \<and> sorted (bar_widths chart)
           \<and> 0 \<notin> set (bar_widths chart)
           \<and> length (ytick_labels chart) = length (bar_widths chart)
           \<and> mset (zip (ytick_labels chart) (bar_widths chart)) =
               mset (filter (\<lambda>lv. snd lv \<noteq> 0)
                      (zip (index df) (df_column df (py_index (length (columns df)) i))))
           \<and> bar_positions chart = [0..<length (bar_widths chart)]
           \<and> ytick_positions chart = [0..<length (bar_widths chart)]
           \<and> title chart = columns df ! py_index (length (columns df)) i"
proof -
  let ?j = "py_index (length (columns df)) i"
  let ?data = "zip (index df) (df_column df ?j)"
  let ?sorted = "sort_key snd (filter (\<lambda>lv. snd lv \<noteq> 0) ?data)"
  let ?chart = "\<lparr>bar_positions = [0..<length (map snd ?sorted)], bar_widths = map snd ?sorted,
                 ytick_positions = [0..<length (map snd ?sorted)], ytick_labels = map fst ?sorted,
                 title = columns df ! ?j, xlabel = ''Proportion'', ylabel = ''Topic''\<rparr>"
  have g: "py_list_get (columns df) i = Inr (columns df ! ?j)" and j: "?j < length (columns df)"
    using py_list_get_valid [OF assms(2,3)] by simp_all
  have sel: "df_getitem df (columns df ! ?j) = Inr (Series ?data)"
    by (simp add: df_getitem_def unique_column [OF j assms(4)])
  have p: "plot_doc_topics df i = Inr ?chart"
    by (simp add: plot_doc_topics_def g sel Let_def)
  have s: "sorted (bar_widths ?chart)" by simp
  have z: "0 \<notin> set (bar_widths ?chart)" by auto
  have l: "length (ytick_labels ?chart) = length (bar_widths ?chart)" by simp
  have "zip (map fst ?sorted) (map snd ?sorted) = ?sorted"
    by (simp add: zip_map_fst_snd)
  then have m: "mset (zip (ytick_labels ?chart) (bar_widths ?chart)) =
               mset (filter (\<lambda>lv. snd lv \<noteq> 0) ?data)"
    by simp
  have r: "bar_positions ?chart = [0..<length (bar_widths ?chart)]"
    "ytick_positions ?chart = [0..<length (bar_widths ?chart)]"
    "title ?chart = columns df ! ?j"
    by simp_all
  show ?thesis
    by (intro exI [of _ ?chart] conjI p s z l m r)
qed

theorem plot_doc_topics_nonzero_sorted_witness:
  "rectangular scenario_doc_topic
   \<and> - int (length (columns scenario_doc_topic)) \<le> 1
   \<and> (1::int) < int (length (columns scenario_doc_topic))
   \<and> count_list (columns scenario_doc_topic)
        (columns scenario_doc_topic ! py_index (length (columns scenario_doc_topic)) 1) = 1
   \<and> (\<exists>chart. plot_doc_topics scenario_doc_topic 1 = Inr chart
           \<and> sorted (bar_widths chart)
           \<and> 0 \<notin> set (bar_widths chart)
           \<and> length (ytick_labels chart) = length (bar_widths chart)
           \<and> mset (zip (ytick_labels chart) (bar_widths chart)) =
               mset (filter (\<lambda>lv. snd lv \<noteq> 0)
                      (zip (index scenario_doc_topic)
                         (df_column scenario_doc_topic
                            (py_index (length (columns scenario_doc_topic)) 1))))
           \<and> bar_positions chart = [0..<length (bar_widths chart)]
           \<and> ytick_positions chart = [0..<length (bar_widths chart)]
           \<and> title chart =
               columns scenario_doc_topic ! py_index (length (columns scenario_doc_topic)) 1)"
proof -
  have h1: "rectangular scenario_doc_topic"
    by (simp add: rectangular_def scenario_doc_topic_def)
  have h2: "- int (length (columns scenario_doc_topic)) \<le> 1"
    by (simp add: scenario_doc_topic_def)
  have h3: "(1::int) < int (length (columns scenario_doc_topic))"
    by (simp add: scenario_doc_topic_def)
  have h4: "count_list (columns scenario_doc_topic)
        (columns scenario_doc_topic ! py_index (length (columns scenario_doc_topic)) 1) = 1"
    by (simp add: scenario_doc_topic_def py_index_def)
  note c = plot_doc_topics_nonzero_sorted [OF h1 h2 h3 h4]
  show ?thesis
    by (rule conjI [OF h1 conjI [OF h2 conjI [OF h3 conjI [OF h4 c]]]])
qed

text \<open>
  Claim C7, as it is stated, fails for a frame in which two documents carry the same
  label, such as \<^verbatim>\<open>create_doc_topic\<close> returns for the document labels \<open>doc\<close>, \<open>doc\<close>:
  \<^verbatim>\<open>doc_topic[label]\<close> then selects both columns and \<^verbatim>\<open>sort_values()\<close> raises TypeError.
\<close>

theorem plot_doc_topics_same_label_counterexample:
  "rectangular same_label_doc_topic
   \<and> - int (length (columns same_label_doc_topic)) \<le> 0
   \<and> (0::int) < int (length (columns same_label_doc_topic))
   \<and> plot_doc_topics same_label_doc_topic 0 = Inl TypeError
   \<and> create_doc_topic scenario_corpus scenario_model [''doc'', ''doc''] =
       Inr same_label_doc_topic"
proof -
  have m: "doc_topic_matrix scenario_corpus scenario_model [''doc'', ''doc''] =
      Inr [[0.7, 0.3], [0, 1]]"
    by (simp add: doc_topic_matrix_def scenario_corpus_def scenario_model_def
      np_zeros_def np_setitem_def Let_def upt_rec numeral_2_eq_2)
  have c: "create_doc_topic scenario_corpus scenario_model [''doc'', ''doc''] =
       Inr same_label_doc_topic"
    unfolding create_doc_topic_def m scenario_labels
    by (simp add: df_transpose_def same_label_doc_topic_def upt_rec numeral_2_eq_2)
  have p: "plot_doc_topics same_label_doc_topic 0 = Inl TypeError"
    by (simp add: plot_doc_topics_def py_list_get_def py_index_def df_getitem_def
        same_label_doc_topic_def Let_def upt_rec numeral_2_eq_2)
  have h1: "rectangular same_label_doc_topic"
    by (simp add: rectangular_def same_label_doc_topic_def)
  have h2: "- int (length (columns same_label_doc_topic)) \<le> 0"
    by (simp add: same_label_doc_topic_def)
  have h3: "(0::int) < int (length (columns same_label_doc_topic))"
    by (simp add: same_label_doc_topic_def)
  show ?thesis
    by (rule conjI [OF h1 conjI [OF h2 conjI [OF h3 conjI [OF p c]]]])
qed

section \<open>Properties of the class Visualization and of the heat maps\<close>

lemma make_heatmap_large:
  assumes "self_doc_labels self = Some labels"
    and "20 < length labels \<or> 20 < num_topics (self_model self)"
    and "make_heatmap self = Inr (self', fig)"
  shows "self' = self \<and> fig = plt_figure (Some (20, 20))"
  using assms
  by (auto simp: make_heatmap_def Let_def split: sum.splits if_splits)

lemma make_heatmap_returns:
  assumes "self_doc_labels self = Some labels"
    and "\<forall>j<min (length (self_corpus self)) (length labels).
           \<forall>p\<in>set (getitem (self_model self) (self_corpus self ! j)).
             0 \<le> fst p \<and> fst p < int (num_topics (self_model self))"
  shows "\<exists>self' fig. make_heatmap self = Inr (self', fig)"
proof -
  from doc_topic_matrix_cells [OF assms(2)] obtain m where
    "doc_topic_matrix (self_corpus self) (self_model self) labels = Inr m"
    by blast
  then show ?thesis
    by (simp add: make_heatmap_def assms(1) Let_def)
qed

lemma save_heatmap_no_figure:
  assumes "heatmap_vis self = None" and "path_exists env path \<or> makedirs env path = None"
  shows "save_heatmap env self path filename ext dpi =
           \<lparr>errors_logged = [''Run make_heatmap() before save_heatmp()''],
            raised = Some AttributeError, files_written = []\<rparr>"
proof -
  have "ensure_dir env path = None"
    using assms(2) by (auto simp: ensure_dir_def)
  then show ?thesis
    by (simp add: save_heatmap_def assms(1) except_save_def)
qed

lemma large_ids:
  "\<forall>j<min (length (self_corpus large_visualization)) (length (replicate 21 ''doc'')).
     \<forall>p\<in>set (getitem (self_model large_visualization) (self_corpus large_visualization ! j)).
       0 \<le> fst p \<and> fst p < int (num_topics (self_model large_visualization))"
  by (simp add: large_visualization_def Visualization_def scenario_model_def)

lemma make_heatmap_large_visualization:
  "make_heatmap large_visualization = Inr (large_visualization, plt_figure (Some (20, 20)))"
proof -
  have l: "self_doc_labels large_visualization = Some (replicate 21 ''doc'')"
    by (simp add: large_visualization_def Visualization_def)
  from make_heatmap_returns [OF l large_ids] obtain self' fig where
    r: "make_heatmap large_visualization = Inr (self', fig)" by blast
  have "20 < length (replicate 21 ''doc'') \<or> 20 < num_topics (self_model large_visualization)"
    by simp
  from make_heatmap_large [OF l this r] r show ?thesis by simp
qed

lemma figure_20_20: "figsize (plt_figure (Some (20, 20))) = Some (20, 20)"
  "pcolor (plt_figure (Some (20, 20))) = None"
  by (simp_all add: plt_figure_def)

lemma scenario_visualization_fresh:
  "heatmap_vis scenario_visualization = None" "interactive_vis scenario_visualization = None"
  by (simp_all add: scenario_visualization_def Visualization_def)

lemma large_visualization_fresh: "heatmap_vis large_visualization = None"
  by (simp add: large_visualization_def Visualization_def)

text \<open>
  The function \<^verbatim>\<open>doc_topic_heatmap\<close> draws the grid whatever the size of the frame, on
  a figure of size (20, 20) when there are more than 20 documents or topics.
\<close>

lemma doc_topic_heatmap_draws:
  "pcolor (doc_topic_heatmap current df) = Some (cells (sort_index (df_transpose df)))
   \<and> yticklabels (doc_topic_heatmap current df) = index (sort_index (df_transpose df))
   \<and> xticklabels (doc_topic_heatmap current df) = index df
   \<and> (20 < length (columns df) \<or> 20 < length (index df) \<longrightarrow>
        figsize (doc_topic_heatmap current df) = Some (20, 20))"
  by (simp add: doc_topic_heatmap_def Let_def sort_index_def df_transpose_def plt_figure_def)

text \<open>
  Claim C8 at 21 documents. \<^verbatim>\<open>make_heatmap\<close> returns with the object as it was, so
  without \<^verbatim>\<open>heatmap_vis\<close>, and with a figure of size (20, 20) on which no grid is drawn:
  the claim's heat map "in both cases" is not produced in the case of the large figure.
\<close>

theorem make_heatmap_21_documents:
  "make_heatmap large_visualization = Inr (large_visualization, plt_figure (Some (20, 20)))
   \<and> figsize (plt_figure (Some (20, 20))) = Some (20, 20)
   \<and> pcolor (plt_figure (Some (20, 20))) = None
   \<and> heatmap_vis large_visualization = None"
  by (simp add: make_heatmap_large_visualization figure_20_20 large_visualization_fresh)

text \<open>
  Claim C9, as the code has it. (1) \<^verbatim>\<open>save_heatmap\<close> on an object without
  \<^verbatim>\<open>heatmap_vis\<close>, when the directory exists or \<^verbatim>\<open>os.makedirs\<close> creates it, logs
  \<^verbatim>\<open>Run make_heatmap() before save_heatmp()\<close> and raises the AttributeError to the caller.
  (2) When the directory does not exist and \<^verbatim>\<open>os.makedirs\<close> raises FileNotFoundError,
  \<^verbatim>\<open>save_heatmap\<close> and \<^verbatim>\<open>save_interactive\<close> return without an error, whether the
  make method has run or not. (3) When \<^verbatim>\<open>savefig\<close> raises FileNotFoundError,
  \<^verbatim>\<open>save_heatmap\<close> returns without an error.
\<close>

theorem save_prerequisite_and_missing_file:
  "((path_exists env path \<or> makedirs env path = None) \<and> heatmap_vis self = None \<longrightarrow>
      save_heatmap env self path filename ext dpi =
        \<lparr>errors_logged = [''Run make_heatmap() before save_heatmp()''],
         raised = Some AttributeError, files_written = []\<rparr>)
   \<and> (\<not> path_exists env path \<and> makedirs env path = Some FileNotFoundError \<longrightarrow>
        save_heatmap env self path filename ext dpi =
          \<lparr>errors_logged = [], raised = None, files_written = []\<rparr>
        \<and> save_interactive env self path filename =
          \<lparr>errors_logged = [], raised = None, files_written = []\<rparr>)
   \<and> ((path_exists env path \<or> makedirs env path = None) \<and> heatmap_vis self = Some fig
        \<and> savefig env (os_path_join path (filename @ ''.'' @ ext)) dpi = Some FileNotFoundError \<longrightarrow>
        save_heatmap env self path filename ext dpi =
          \<lparr>errors_logged = [], raised = None, files_written = []\<rparr>)"
proof (intro conjI impI)
  assume "(path_exists env path \<or> makedirs env path = None) \<and> heatmap_vis self = None"
  then show "save_heatmap env self path filename ext dpi =
        \<lparr>errors_logged = [''Run make_heatmap() before save_heatmp()''],
         raised = Some AttributeError, files_written = []\<rparr>"
    by (simp add: save_heatmap_no_figure)
next
  assume a: "\<not> path_exists env path \<and> makedirs env path = Some FileNotFoundError"
  then have d: "ensure_dir env path = Some FileNotFoundError"
    by (simp add: ensure_dir_def)
  show "save_heatmap env self path filename ext dpi =
          \<lparr>errors_logged = [], raised = None, files_written = []\<rparr>"
    by (simp add: save_heatmap_def d except_save_def)
  show "save_interactive env self path filename =
          \<lparr>errors_logged = [], raised = None, files_written = []\<rparr>"
    by (simp add: save_interactive_def d except_save_def)
next
  assume a: "(path_exists env path \<or> makedirs env path = None) \<and> heatmap_vis self = Some fig
        \<and> savefig env (os_path_join path (filename @ ''.'' @ ext)) dpi = Some FileNotFoundError"
  then have d: "ensure_dir env path = None"
    by (auto simp: ensure_dir_def)
  from a show "save_heatmap env self path filename ext dpi =
          \<lparr>errors_logged = [], raised = None, files_written = []\<rparr>"
    by (simp add: save_heatmap_def d except_save_def)
qed

theorem save_prerequisite_and_missing_file_witness:
  "(path_exists ready_env ''out'' \<and> heatmap_vis scenario_visualization = None)
   \<and> save_heatmap ready_env scenario_visualization ''out'' ''heatmap'' ''png'' 200 =
        \<lparr>errors_logged = [''Run make_heatmap() before save_heatmp()''],
         raised = Some AttributeError, files_written = []\<rparr>
   \<and> (path_exists no_dir_env [] = False \<and> makedirs no_dir_env [] = Some FileNotFoundError)
   \<and> save_heatmap no_dir_env scenario_visualization [] ''heatmap'' ''png'' 200 =
          \<lparr>errors_logged = [], raised = None, files_written = []\<rparr>
   \<and> save_interactive no_dir_env scenario_visualization [] ''heatmap'' =
          \<lparr>errors_logged = [], raised = None, files_written = []\<rparr>
   \<and> (path_exists lost_file_env ''out''
        \<and> heatmap_vis drawn_visualization = Some (plt_figure None)
        \<and> savefig lost_file_env (os_path_join ''out'' (''sub/heatmap'' @ ''.'' @ ''png'')) 200 =
            Some FileNotFoundError)
   \<and> save_heatmap lost_file_env drawn_visualization ''out'' ''sub/heatmap'' ''png'' 200 =
          \<lparr>errors_logged = [], raised = None, files_written = []\<rparr>"
proof -
  have e1: "path_exists ready_env ''out''" by (simp add: ready_env_def)
  have h1: "(path_exists ready_env ''out'' \<or> makedirs ready_env ''out'' = None)
      \<and> heatmap_vis scenario_visualization = None"
    using e1 by (simp add: scenario_visualization_fresh)
  have s1: "path_exists ready_env ''out'' \<and> heatmap_vis scenario_visualization = None"
    using e1 by (simp add: scenario_visualization_fresh)
  have h2: "\<not> path_exists no_dir_env [] \<and> makedirs no_dir_env [] = Some FileNotFoundError"
    by (simp add: no_dir_env_def)
  have s2: "path_exists no_dir_env [] = False \<and> makedirs no_dir_env [] = Some FileNotFoundError"
    by (simp add: no_dir_env_def)
  have e3: "path_exists lost_file_env ''out''" by (simp add: lost_file_env_def)
  have f3: "heatmap_vis drawn_visualization = Some (plt_figure None)"
    by (simp add: drawn_visualization_def)
  have g3: "savefig lost_file_env (os_path_join ''out'' (''sub/heatmap'' @ ''.'' @ ''png'')) 200 =
            Some FileNotFoundError"
    by (simp add: lost_file_env_def os_path_join_def)
  have h3: "(path_exists lost_file_env ''out'' \<or> makedirs lost_file_env ''out'' = None)
        \<and> heatmap_vis drawn_visualization = Some (plt_figure None)
        \<and> savefig lost_file_env (os_path_join ''out'' (''sub/heatmap'' @ ''.'' @ ''png'')) 200 =
            Some FileNotFoundError"
    using e3 f3 g3 by simp
  note t1 = save_prerequisite_and_missing_file
    [of ready_env "''out''" scenario_visualization "''heatmap''" "''png''" 200 "plt_figure None"]
  note t2 = save_prerequisite_and_missing_file
    [of no_dir_env "[]" scenario_visualization "''heatmap''" "''png''" 200 "plt_figure None"]
  note t3 = save_prerequisite_and_missing_file
    [of lost_file_env "''out''" drawn_visualization "''sub/heatmap''" "''png''" 200 "plt_figure None"]
  note a = mp [OF conjunct1 [OF t1] h1]
  note b = mp [OF conjunct1 [OF conjunct2 [OF t2]] h2]
  note c = mp [OF conjunct2 [OF conjunct2 [OF t3]] h3]
  show ?thesis
    by (rule conjI [OF s1 conjI [OF a conjI [OF s2 conjI [OF conjunct1 [OF b]
         conjI [OF conjunct2 [OF b] conjI [OF conjI [OF e3 conjI [OF f3 g3]] c]]]]]])
qed

text \<open>
  Claim C9, as it is stated, fails: on an object on which no make method was called,
  \<^verbatim>\<open>save_heatmap\<close> with the empty path, for which \<^verbatim>\<open>os.makedirs\<close> raises
  FileNotFoundError, returns without any error and logs nothing.
\<close>

theorem save_prerequisite_and_missing_file_counterexample:
  "heatmap_vis scenario_visualization = None
   \<and> path_exists no_dir_env [] = False
   \<and> makedirs no_dir_env [] = Some FileNotFoundError
   \<and> save_heatmap no_dir_env scenario_visualization [] ''heatmap'' ''png'' 200 =
       \<lparr>errors_logged = [], raised = None, files_written = []\<rparr>"
  by (simp add: scenario_visualization_fresh save_heatmap_def ensure_dir_def
      no_dir_env_def except_save_def)

text \<open>
  Claim C10, as the code has it. On an object with document labels, more than 20 of them
  or more than 20 topics, and no \<^verbatim>\<open>heatmap_vis\<close>: whenever \<^verbatim>\<open>make_heatmap\<close> returns, the
  object is as it was, still without \<^verbatim>\<open>heatmap_vis\<close>, and the figure created has size
  (20, 20) and no grid; a \<^verbatim>\<open>save_heatmap\<close> that follows, for a directory that exists or
  that \<^verbatim>\<open>os.makedirs\<close> creates, logs its message and raises AttributeError. And
  \<^verbatim>\<open>make_heatmap\<close> does return when the topic ids of the labelled documents are column
  indices.
\<close>

theorem make_heatmap_large_then_save:
  assumes "self_doc_labels self = Some labels"
    and "20 < length labels \<or> 20 < num_topics (self_model self)"
    and "heatmap_vis self = None"
  shows "(make_heatmap self = Inr (self', fig) \<longrightarrow>
            self' = self \<and> figsize fig = Some (20, 20) \<and> pcolor fig = None
            \<and> heatmap_vis self' = None
            \<and> (path_exists env path \<or> makedirs env path = None \<longrightarrow>
                 save_heatmap env self' path filename ext dpi =
                   \<lparr>errors_logged = [''Run make_heatmap() before save_heatmp()''],
                    raised = Some AttributeError, files_written = []\<rparr>))
         \<and> ((\<forall>j<min (length (self_corpus self)) (length labels).
               \<forall>p\<in>set (getitem (self_model self) (self_corpus self ! j)).
                 0 \<le> fst p \<and> fst p < int (num_topics (self_model self)))
            \<longrightarrow> (\<exists>f. make_heatmap self = Inr (self, f)))"
proof (intro conjI impI)
  assume r: "make_heatmap self = Inr (self', fig)"
  from make_heatmap_large [OF assms(1,2) r]
  have e: "self' = self" "fig = plt_figure (Some (20, 20))" by simp_all
  show "self' = self" by (rule e(1))
  show "figsize fig = Some (20, 20)" "pcolor fig = None"
    by (simp_all add: e(2) figure_20_20)
  show "heatmap_vis self' = None" by (simp add: e(1) assms(3))
  assume "path_exists env path \<or> makedirs env path = None"
  with assms(3) e(1) show "save_heatmap env self' path filename ext dpi =
                   \<lparr>errors_logged = [''Run make_heatmap() before save_heatmp()''],
                    raised = Some AttributeError, files_written = []\<rparr>"
    by (simp add: save_heatmap_no_figure)
next
  assume "\<forall>j<min (length (self_corpus self)) (length labels).
               \<forall>p\<in>set (getitem (self_model self) (self_corpus self ! j)).
                 0 \<le> fst p \<and> fst p < int (num_topics (self_model self))"
  from make_heatmap_returns [OF assms(1) this] obtain s f where
    r: "make_heatmap self = Inr (s, f)" by blast
  from make_heatmap_large [OF assms(1,2) r] r
  show "\<exists>f. make_heatmap self = Inr (self, f)" by auto
qed

theorem make_heatmap_large_then_save_witness:
  "self_doc_labels large_visualization = Some (replicate 21 ''doc'')
   \<and> 20 < length (replicate 21 ''doc'')
   \<and> heatmap_vis large_visualization = None
   \<and> make_heatmap large_visualization = Inr (large_visualization, plt_figure (Some (20, 20)))
   \<and> path_exists ready_env ''out''
   \<and> save_heatmap ready_env large_visualization ''out'' ''heatmap'' ''png'' 200 =
       \<lparr>errors_logged = [''Run make_heatmap() before save_heatmp()''],
        raised = Some AttributeError, files_written = []\<rparr>"
proof -
  have h1: "self_doc_labels large_visualization = Some (replicate 21 ''doc'')"
    by (simp add: large_visualization_def Visualization_def)
  have h2: "20 < length (replicate 21 ''doc'')" by simp
  have h2': "20 < length (replicate 21 ''doc'') \<or> 20 < num_topics (self_model large_visualization)"
    using h2 by (rule disjI1)
  note h3 = large_visualization_fresh
  note r = make_heatmap_large_visualization
  have h4: "path_exists ready_env ''out''" by (simp add: ready_env_def)
  have h4': "path_exists ready_env ''out'' \<or> makedirs ready_env ''out'' = None"
    using h4 by (rule disjI1)
  note t = make_heatmap_large_then_save [OF h1 h2' h3,
      of large_visualization "plt_figure (Some (20, 20))" ready_env "''out''"
         "''heatmap''" "''png''" 200]
  note c = mp [OF conjunct1 [OF t] r]
  note c4 = conjunct2 [OF conjunct2 [OF conjunct2 [OF conjunct2 [OF c]]]]
  note sv = mp [OF c4 h4']
  show ?thesis
    by (rule conjI [OF h1 conjI [OF h2 conjI [OF h3 conjI [OF r conjI [OF h4 sv]]]]])
qed

text \<open>
  Claim C10, as it is stated, fails for a \<^verbatim>\<open>save_heatmap\<close> whose directory step raises
  FileNotFoundError: after \<^verbatim>\<open>make_heatmap\<close> on 21 documents, \<^verbatim>\<open>save_heatmap\<close> with the
  empty path returns without raising AttributeError.
\<close>

theorem make_heatmap_large_then_save_counterexample:
  "make_heatmap large_visualization = Inr (large_visualization, plt_figure (Some (20, 20)))
   \<and> save_heatmap no_dir_env large_visualization [] ''heatmap'' ''png'' 200 =
       \<lparr>errors_logged = [], raised = None, files_written = []\<rparr>"
  by (simp add: make_heatmap_large_visualization save_heatmap_def ensure_dir_def no_dir_env_def
      except_save_def)

end
